theory Spec2Isabelle
  imports Main "HOL-Library.AList"
begin

section \<open>JavaScript values\<close>

text \<open>
  The execution engine passes JSON-like values around: the parsed output of a run, the
  save directive embedded in it, the records returned by collaborators. Objects are
  association lists in insertion order.
\<close>

datatype jsval =
    JUndefined
  | JNull
  | JBool bool
  | JNum int
  | JStr string
  | JArr "jsval list"
  | JObj "(string \<times> jsval) list"

text \<open>Truthiness, as \<open>!!v\<close>, \<open>v || w\<close> and \<open>if (v)\<close> decide it.\<close>

fun truthy :: "jsval \<Rightarrow> bool" where
  "truthy JUndefined = False"
| "truthy JNull = False"
| "truthy (JBool b) = b"
| "truthy (JNum n) = (n \<noteq> 0)"
| "truthy (JStr s) = (s \<noteq> [])"
| "truthy (JArr xs) = True"
| "truthy (JObj kvs) = True"

text \<open>\<open>a || b\<close> on values.\<close>

definition js_or :: "jsval \<Rightarrow> jsval \<Rightarrow> jsval" where
  "js_or a b = (if truthy a then a else b)"

text \<open>
  Property read \<open>v.k\<close>. Reading a property of \<open>undefined\<close> or \<open>null\<close> throws a
  TypeError (\<open>None\<close>); a missing property reads as \<open>undefined\<close>. A string has a
  \<open>length\<close>; no other property of a primitive is used by the code modelled here.
\<close>

fun get_prop :: "jsval \<Rightarrow> string \<Rightarrow> jsval option" where
  "get_prop JUndefined k = None"
| "get_prop JNull k = None"
| "get_prop (JObj kvs) k = Some (case map_of kvs k of Some v \<Rightarrow> v | None \<Rightarrow> JUndefined)"
| "get_prop (JArr xs) k = Some (if k = ''length'' then JNum (int (length xs)) else JUndefined)"
| "get_prop (JStr s) k = Some (if k = ''length'' then JNum (int (length s)) else JUndefined)"
| "get_prop v k = Some JUndefined"

text \<open>
  The same read where the value is already known to be neither \<open>undefined\<close> nor \<open>null\<close>
  (it is truthy, or an earlier read of it went through), so that it cannot throw.
\<close>

definition read_prop :: "jsval \<Rightarrow> string \<Rightarrow> jsval" where
  "read_prop v k = (case get_prop v k of Some x \<Rightarrow> x | None \<Rightarrow> JUndefined)"

section \<open>Regular expressions of the code checks\<close>

text \<open>
  The patterns of \<open>CodeExecutor\<close> are sequences of single-character items, each with a
  quantifier: a literal (matched case-insensitively, all patterns carry the \<open>i\<close> flag),
  \<open>\s\<close>, a bracket class or a negated bracket class. Source code is a list of 8-bit
  code units.
\<close>

datatype cls = Lit char | Space | OneOf string | NoneOf string

datatype quant = One | Star | Plus

type_synonym regex = "(cls \<times> quant) list"

definition is_space :: "char \<Rightarrow> bool" where
  "is_space c = (c = CHR 0x20 \<or> c = CHR 0x09 \<or> c = CHR 0x0A \<or> c = CHR 0x0B \<or> c = CHR 0x0C
                 \<or> c = CHR 0x0D \<or> c = CHR 0xA0)"

text \<open>
  Case folding of the \<open>i\<close> flag on a code unit: a lower-case ASCII letter (\<open>0x61\<close> to
  \<open>0x7A\<close>: bits 6 and 5 set, bit 7 clear, the low five bits between 1 and 26) loses bit
  5; every other code unit is left alone. The bits of \<open>Char\<close> are given lowest first.
\<close>

fun upper :: "char \<Rightarrow> char" where
  "upper (Char b0 b1 b2 b3 b4 b5 b6 b7) =
     (if \<not> b7 \<and> b6 \<and> b5 \<and> (b0 \<or> b1 \<or> b2 \<or> b3 \<or> b4) \<and> \<not> (b4 \<and> b3 \<and> (b2 \<or> (b1 \<and> b0)))
      then Char b0 b1 b2 b3 b4 False b6 b7
      else Char b0 b1 b2 b3 b4 b5 b6 b7)"

fun in_cls :: "cls \<Rightarrow> char \<Rightarrow> bool" where
  "in_cls (Lit c) x = (upper x = upper c)"
| "in_cls Space x = is_space x"
| "in_cls (OneOf cs) x = (x \<in> set cs)"
| "in_cls (NoneOf cs) x = (x \<notin> set cs)"

text \<open>
  Match at the start of the input, greedy with backtracking; the result is the input
  left after the match.
\<close>

fun rx_match :: "regex \<Rightarrow> string \<Rightarrow> string option" where
  "rx_match [] s = Some s"
| "rx_match ((c, One) # ps) [] = None"
| "rx_match ((c, One) # ps) (x # xs) = (if in_cls c x then rx_match ps xs else None)"
| "rx_match ((c, Star) # ps) [] = rx_match ps []"
| "rx_match ((c, Star) # ps) (x # xs) =
     (if in_cls c x
      then (case rx_match ((c, Star) # ps) xs of
              Some r \<Rightarrow> Some r
            | None \<Rightarrow> rx_match ps (x # xs))
      else rx_match ps (x # xs))"
| "rx_match ((c, Plus) # ps) [] = None"
| "rx_match ((c, Plus) # ps) (x # xs) =
     (if in_cls c x then rx_match ((c, Star) # ps) xs else None)"

text \<open>\<open>pattern.test(code)\<close> on a fresh pattern: is there a match at some position.\<close>

fun rx_test :: "regex \<Rightarrow> string \<Rightarrow> bool" where
  "rx_test p [] = (rx_match p [] \<noteq> None)"
| "rx_test p (x # xs) = (rx_match p (x # xs) \<noteq> None \<or> rx_test p xs)"

text \<open>
  \<open>(code.match(pattern) || []).length\<close> with the \<open>g\<close> flag: the matches found scanning
  left to right, each search resuming where the last match ended (one further after an
  empty match).
\<close>

function rx_count :: "regex \<Rightarrow> string \<Rightarrow> nat" where
  "rx_count p s =
     (case rx_match p s of
        Some r \<Rightarrow>
          (if length r < length s then Suc (rx_count p r)
           else (case s of [] \<Rightarrow> 1 | x # xs \<Rightarrow> Suc (rx_count p xs)))
      | None \<Rightarrow> (case s of [] \<Rightarrow> 0 | x # xs \<Rightarrow> rx_count p xs))"
  by pat_completeness auto
termination
  by (relation "measure (\<lambda>(p, s). length s)") auto

declare rx_count.simps [simp del]

definition lits :: "string \<Rightarrow> regex" where
  "lits w = map (\<lambda>c. (Lit c, One)) w"

definition quote :: cls where
  "quote = OneOf [CHR 0x27, CHR 0x22, CHR 0x60]"

section \<open>CodeExecutor: validation\<close>

definition dangerousPatterns :: "regex list" where
  "dangerousPatterns =
    [ lits ''require('' @ [(quote, One)] @ lits ''fs'' @ [(quote, One)] @ lits '')'',
      lits ''require('' @ [(quote, One)] @ lits ''child_process'' @ [(quote, One)] @ lits '')'',
      lits ''require('' @ [(quote, One)] @ lits ''os'' @ [(quote, One)] @ lits '')'',
      lits ''process.exit'',
      lits ''process.kill'',
      lits ''eval('',
      lits ''Function('',
      lits ''setTimeout('',
      lits ''setInterval('',
      lits ''while'' @ [(Space, Star)] @ lits ''('' @ [(Space, Star)] @ lits ''true''
        @ [(Space, Star)] @ lits '')'',
      lits ''for'' @ [(Space, Star)] @ lits ''('' @ [(Space, Star)] @ lits '';''
        @ [(Space, Star)] @ lits '';'' @ [(Space, Star)] @ lits '')'',
      lits ''import('' @ [(quote, One)] @ lits ''fs'' @ [(quote, One)] @ lits '')'',
      lits ''import('' @ [(quote, One)] @ lits ''child_process'' @ [(quote, One)] @ lits '')'' ]"

definition hasDangerousOperations :: "string \<Rightarrow> bool" where
  "hasDangerousOperations code = list_ex (\<lambda>pattern. rx_test pattern code) dangerousPatterns"

definition loopPatterns :: "regex list" where
  "loopPatterns =
    [ lits ''for'' @ [(Space, Star)] @ lits ''('',
      lits ''while'' @ [(Space, Star)] @ lits ''('' ]"

definition loopCount :: "string \<Rightarrow> nat" where
  "loopCount code = foldl (\<lambda>count pattern. count + rx_count pattern code) 0 loopPatterns"

definition hasExcessiveLoops :: "string \<Rightarrow> bool" where
  "hasExcessiveLoops code = (loopCount code > 5)"

definition trim :: "string \<Rightarrow> string" where
  "trim s = rev (dropWhile is_space (rev (dropWhile is_space s)))"

text \<open>
  \<open>validateCode\<close> throws the error of the first check that fires, in the order of the
  source's table, and returns \<open>true\<close> otherwise. An exception is \<open>Inl\<close> of its message.
\<close>

type_synonym error = string

definition validations :: "string \<Rightarrow> (bool \<times> error) list" where
  "validations code =
    [ (length code > 10000, ''CODE_TOO_LONG''),
      (hasDangerousOperations code, ''DANGEROUS_OPERATIONS_DETECTED''),
      (hasExcessiveLoops code, ''EXCESSIVE_LOOPS_DETECTED''),
      (trim code = [], ''EMPTY_CODE'') ]"

fun first_failure :: "(bool \<times> error) list \<Rightarrow> error + bool" where
  "first_failure [] = Inr True"
| "first_failure ((check, err) # vs) = (if check then Inl err else first_failure vs)"

definition validateCode :: "string \<Rightarrow> error + bool" where
  "validateCode code = first_failure (validations code)"

section \<open>DockerManager\<close>

text \<open>
  \<open>activeContainers\<close> is the manager's \<open>Map\<close> from container id to bookkeeping data, in
  insertion order. \<open>running\<close> stands for the Docker daemon behind \<open>this.docker\<close>: the ids
  of the containers it keeps alive. What the daemon answers to a call (success or an
  exception) is an argument of the function that makes the call.
\<close>

record container_data =
  createdAt :: int
  lastUsed :: int

record docker_manager =
  activeContainers :: "(string \<times> container_data) list"
  maxContainers :: int
  running :: "string list"

text \<open>
  The constructor: \<open>parseInt(env.app.maxContainers) || 10\<close>, where \<open>None\<close> is \<open>NaN\<close>.
\<close>

definition new_DockerManager :: "int option \<Rightarrow> docker_manager" where
  "new_DockerManager parsed =
     \<lparr> activeContainers = [],
       maxContainers = (case parsed of None \<Rightarrow> 10 | Some n \<Rightarrow> if n = 0 then 10 else n),
       running = [] \<rparr>"

text \<open>\<open>Map.set\<close> (replace in place, or append) and \<open>Map.delete\<close>.\<close>

definition map_set :: "(string \<times> 'v) list \<Rightarrow> string \<Rightarrow> 'v \<Rightarrow> (string \<times> 'v) list" where
  "map_set m k v = AList.update k v m"

definition map_delete :: "(string \<times> 'v) list \<Rightarrow> string \<Rightarrow> (string \<times> 'v) list" where
  "map_delete m k = AList.delete k m"

text \<open>
  \<open>createContainer\<close> runs in two turns of the event loop. The first checks the limit and
  reaches \<open>await this.docker.createContainer(...)\<close>; the second runs once the daemon has
  answered (\<open>Some id\<close>: container created and started, \<open>None\<close>: either call threw) and
  registers the container.
\<close>

definition createContainer_check :: "docker_manager \<Rightarrow> error + unit" where
  "createContainer_check dm =
     (if int (length (activeContainers dm)) \<ge> maxContainers dm
      then Inl ''CONTAINER_LIMIT_EXCEEDED'' else Inr ())"

definition createContainer_register ::
    "docker_manager \<Rightarrow> int \<Rightarrow> string option \<Rightarrow> (error + string) \<times> docker_manager" where
  "createContainer_register dm now answer =
     (case answer of
        None \<Rightarrow> (Inl ''CONTAINER_CREATION_FAILED'', dm)
      | Some containerId \<Rightarrow>
          (Inr containerId,
           dm\<lparr> activeContainers :=
                  map_set (activeContainers dm) containerId \<lparr>createdAt = now, lastUsed = now\<rparr>,
               running := running dm @ [containerId] \<rparr>))"

text \<open>One call with nothing else scheduled between its two turns.\<close>

definition createContainer ::
    "docker_manager \<Rightarrow> int \<Rightarrow> string option \<Rightarrow> (error + string) \<times> docker_manager" where
  "createContainer dm now answer =
     (case createContainer_check dm of
        Inl e \<Rightarrow> (Inl e, dm)
      | Inr u \<Rightarrow> createContainer_register dm now answer)"

text \<open>
  Concurrent callers: an event is a caller entering \<open>createContainer\<close> (its first turn) or
  a pending caller being resumed with the daemon's answer (its second turn). The outcome
  of every finished call is recorded under the caller's number.
\<close>

datatype create_event = Enter nat | Resume nat "string option"

record create_run =
  manager :: docker_manager
  pending :: "nat list"
  finished :: "(nat \<times> (error + string)) list"

fun create_step :: "int \<Rightarrow> create_run \<Rightarrow> create_event \<Rightarrow> create_run" where
  "create_step now st (Enter n) =
     (case createContainer_check (manager st) of
        Inl e \<Rightarrow> st\<lparr> finished := finished st @ [(n, Inl e)] \<rparr>
      | Inr u \<Rightarrow> st\<lparr> pending := pending st @ [n] \<rparr>)"
| "create_step now st (Resume n answer) =
     (if n \<in> set (pending st)
      then (case createContainer_register (manager st) now answer of
              (r, dm') \<Rightarrow> st\<lparr> manager := dm', pending := removeAll n (pending st),
                               finished := finished st @ [(n, r)] \<rparr>)
      else st)"

definition create_schedule :: "docker_manager \<Rightarrow> int \<Rightarrow> create_event list \<Rightarrow> create_run" where
  "create_schedule dm now evs =
     foldl (create_step now) \<lparr> manager = dm, pending = [], finished = [] \<rparr> evs"

text \<open>\<open>forceStopContainer\<close>: \<open>kill_ok\<close> tells whether \<open>container.kill()\<close> returned.\<close>

definition forceStopContainer :: "docker_manager \<Rightarrow> string \<Rightarrow> bool \<Rightarrow> docker_manager" where
  "forceStopContainer dm containerId kill_ok =
     (case map_of (activeContainers dm) containerId of
        None \<Rightarrow> dm
      | Some containerData \<Rightarrow>
          (if kill_ok
           then dm\<lparr> activeContainers := map_delete (activeContainers dm) containerId,
                    running := removeAll containerId (running dm) \<rparr>
           else dm))"

text \<open>
  \<open>destroyContainer\<close>: a graceful stop; when it throws, a forced removal; when that
  throws too, the failure is logged and the container stays registered.
\<close>

definition destroyContainer :: "docker_manager \<Rightarrow> string \<Rightarrow> bool \<Rightarrow> bool \<Rightarrow> docker_manager" where
  "destroyContainer dm containerId stop_ok remove_ok =
     (case map_of (activeContainers dm) containerId of
        None \<Rightarrow> dm
      | Some containerData \<Rightarrow>
          (if stop_ok \<or> remove_ok
           then dm\<lparr> activeContainers := map_delete (activeContainers dm) containerId,
                    running := removeAll containerId (running dm) \<rparr>
           else dm))"

text \<open>\<open>healthCheck\<close>: \<open>info_ok\<close> tells whether \<open>docker.info()\<close> returned.\<close>

record health =
  status :: string
  total :: int
  max_total :: int

definition healthCheck :: "docker_manager \<Rightarrow> bool \<Rightarrow> health" where
  "healthCheck dm info_ok =
     (if info_ok
      then \<lparr> status = ''HEALTHY'', total = int (length (activeContainers dm)),
             max_total = maxContainers dm \<rparr>
      else \<lparr> status = ''UNHEALTHY'', total = 0, max_total = 0 \<rparr>)"

subsection \<open>Running a program in a container\<close>

text \<open>
  Built-ins of the language the code calls and that are taken as given: \<open>JSON.parse\<close>
  (its argument converted to a string first; \<open>None\<close> when it throws), the text
  \<open>JSON.stringify\<close> gives, the string conversion \<open>String(v)\<close> and the base64 encoding of
  a string.
\<close>

record builtins =
  JSON_parse :: "jsval \<Rightarrow> jsval option"
  JSON_stringify :: "jsval \<Rightarrow> string"
  String_of :: "jsval \<Rightarrow> string"
  base64 :: "string \<Rightarrow> string"

record result =
  success :: bool
  "output" :: jsval
  error :: jsval
  logs :: jsval
  executionTime :: int

record run_result = result +
  exitCode :: int

text \<open>
  What happens once the program has been started in the container: starting it throws;
  the deadline fires first (with the outcome of the kill); the stream ends (with what was
  written to stdout and stderr and the outcome of \<open>exec.inspect()\<close>: an exit code, or an
  exception); or the stream reports an error.
\<close>

datatype run_outcome =
    ExecThrows error
  | DeadlineFires bool
  | StreamEnds string string "error + int"
  | StreamError error

fun split_nl :: "string \<Rightarrow> string list" where
  "split_nl [] = [[]]"
| "split_nl (c # cs) =
     (if c = CHR 0x0A then [] # split_nl cs
      else (let r = split_nl cs in (c # hd r) # tl r))"

definition starts_json :: "string \<Rightarrow> bool" where
  "starts_json s = (case s of [] \<Rightarrow> False | c # cs \<Rightarrow> c = CHR ''{'' \<or> c = CHR ''['')"

text \<open>The line handed to \<open>JSON.parse\<close>: the last one, or the first that looks like JSON.\<close>

definition json_line :: "string \<Rightarrow> string" where
  "json_line text =
     (let lines = split_nl (trim text); jsonLine = last lines
      in if \<not> starts_json (trim jsonLine)
         then (case find (\<lambda>line. starts_json (trim line)) lines of
                 Some line \<Rightarrow> line
               | None \<Rightarrow> jsonLine)
         else jsonLine)"

text \<open>
  The four variables \<open>success\<close>, \<open>output\<close>, \<open>error\<close>, \<open>logs\<close> of the \<open>end\<close> handler, after
  the stdout block and after the stderr block. An exception inside a block leaves the
  assignments made before it in place.
\<close>

type_synonym vars = "bool \<times> jsval \<times> jsval \<times> jsval"

definition read_stdout :: "builtins \<Rightarrow> string \<Rightarrow> vars \<Rightarrow> vars" where
  "read_stdout bi stdout v =
     (case v of (ok, out, er, lg) \<Rightarrow>
        if trim stdout \<noteq> []
        then (case JSON_parse bi (JStr (json_line stdout)) of
                None \<Rightarrow> (ok, JStr (trim stdout), er, lg)
              | Some parsed \<Rightarrow>
                  (case get_prop parsed ''data'' of
                     None \<Rightarrow> (ok, JStr (trim stdout), er, lg)
                   | Some d \<Rightarrow>
                       (get_prop parsed ''success'' \<noteq> Some (JBool False),
                        js_or d parsed,
                        (if truthy (read_prop parsed ''error'')
                         then read_prop parsed ''error'' else er),
                        js_or (read_prop parsed ''logs'') (JArr []))))
        else v)"

definition read_stderr :: "builtins \<Rightarrow> string \<Rightarrow> vars \<Rightarrow> vars" where
  "read_stderr bi stderr v =
     (case v of (ok, out, er, lg) \<Rightarrow>
        if trim stderr \<noteq> []
        then (case JSON_parse bi (JStr (json_line stderr)) of
                None \<Rightarrow> (ok, out, JStr (trim stderr), lg)
              | Some parsedError \<Rightarrow>
                  (case get_prop parsedError ''error'' of
                     None \<Rightarrow> (False, out, JStr (trim stderr), lg)
                   | Some e \<Rightarrow>
                       (False, out, js_or e (JStr (trim stderr)),
                        js_or (read_prop parsedError ''logs'') (JArr []))))
        else v)"

definition executeCode ::
    "builtins \<Rightarrow> docker_manager \<Rightarrow> string \<Rightarrow> int \<Rightarrow> int \<Rightarrow> run_outcome
      \<Rightarrow> (error + run_result) \<times> docker_manager" where
  "executeCode bi dm containerId now now_end run =
     (case map_of (activeContainers dm) containerId of
        None \<Rightarrow> (Inl ''CONTAINER_NOT_FOUND'', dm)
      | Some containerData \<Rightarrow>
          (let dm1 = dm\<lparr> activeContainers :=
                          map_set (activeContainers dm) containerId (containerData\<lparr>lastUsed := now\<rparr>) \<rparr>
           in case run of
                ExecThrows e \<Rightarrow> (Inl e, dm1)
              | DeadlineFires kill_ok \<Rightarrow>
                  (Inl ''EXECUTION_TIMEOUT'', forceStopContainer dm1 containerId kill_ok)
              | StreamError e \<Rightarrow> (Inl e, dm1)
              | StreamEnds stdout stderr inspected \<Rightarrow>
                  (case inspected of
                     Inl e \<Rightarrow> (Inl e, dm1)
                   | Inr code \<Rightarrow>
                       (case read_stderr bi stderr
                               (read_stdout bi stdout (code = 0, JNull, JNull, JArr [])) of
                          (ok, out, er, lg) \<Rightarrow>
                            (Inr \<lparr> success = ok, output = out, error = er, logs = lg,
                                   executionTime = now_end - now, exitCode = code \<rparr>,
                             dm1)))))"

section \<open>CodeExecutor: strategies and the result cache\<close>

definition complexPatterns :: "regex list" where
  "complexPatterns =
    [ lits ''async'' @ [(Space, Plus)] @ lits ''function'',
      lits ''await'' @ [(Space, Plus)],
      lits ''Promise.'',
      lits ''setTimeout'',
      lits ''setInterval'',
      lits ''while'' @ [(Space, Star)] @ lits ''('',
      lits ''for'' @ [(Space, Star)] @ lits ''('' @ [(NoneOf '';'', Star)] @ lits '';''
        @ [(NoneOf '';'', Star)] @ lits '';'' @ [(NoneOf '')'', Star)] @ lits '')'',
      lits ''JSON.parse'',
      lits ''JSON.stringify'',
      lits ''Math.random'' ]"

definition hasComplexOperations :: "string \<Rightarrow> bool" where
  "hasComplexOperations src = list_ex (\<lambda>pattern. rx_test pattern src) complexPatterns"

definition asyncPatterns :: "regex list" where
  "asyncPatterns =
    [ lits ''async'', lits ''await'', lits ''Promise'', lits ''.then('', lits ''.catch('' ]"

definition hasAsyncOperations :: "string \<Rightarrow> bool" where
  "hasAsyncOperations src = list_ex (\<lambda>pattern. rx_test pattern src) asyncPatterns"

record exec_context =
  code :: string
  timeout :: int
  language :: jsval
  mockData :: jsval
  environment :: jsval
  request :: jsval
  requireIsolation :: jsval

record exec_result = result +
  strategy :: string
  containerId :: "string option"

record cache_entry =
  cached :: exec_result
  timestamp :: int

text \<open>
  The executor owns the cache and the log buffer of the sandbox it built in its
  constructor, and uses the one \<open>dockerManager\<close> of the process.
\<close>

record executor =
  executionCache :: "(string \<times> cache_entry) list"
  sandboxLogs :: "string list"
  dockerManager :: docker_manager

definition cacheTTL :: int where
  "cacheTTL = 30000"

definition new_CodeExecutor :: "docker_manager \<Rightarrow> executor" where
  "new_CodeExecutor dm = \<lparr> executionCache = [], sandboxLogs = [], dockerManager = dm \<rparr>"

text \<open>
  What the outside answers during one call: the clock when the call starts and when the
  run is over, the daemon's answers, and what the vm2 interpreter does with the script
  (the calls the script makes to the sandbox console, then a returned value or a thrown
  one). The program texts that \<open>wrapCodeForVM2\<close>, \<open>wrapCodeForDocker\<close>, \<open>wrapCode\<close> and
  \<open>createExecutionContext\<close> build around the user code are handed to the interpreter or
  to the daemon and nothing else reads them; what comes back is the input described
  here, for any program text.
\<close>

datatype level = Log | Error | Warn

datatype vm_outcome = VmReturns jsval | VmThrows jsval

record docker_io =
  clock :: int
  clock_end :: int
  info_ok :: bool
  create_answer :: "string option"
  run :: run_outcome
  stop_ok :: bool
  remove_ok :: bool

record exec_io = docker_io +
  vm_console :: "(level \<times> jsval list) list"
  vm :: vm_outcome

text \<open>The sandbox console of \<open>createSecureSandbox\<close>: each call appends one line.\<close>

definition is_object :: "jsval \<Rightarrow> bool" where
  "is_object v = (case v of JNull \<Rightarrow> True | JArr xs \<Rightarrow> True | JObj kvs \<Rightarrow> True | _ \<Rightarrow> False)"

fun join :: "string \<Rightarrow> string list \<Rightarrow> string" where
  "join sep [] = []"
| "join sep [x] = x"
| "join sep (x # y # ys) = x @ sep @ join sep (y # ys)"

definition console_line :: "builtins \<Rightarrow> level \<times> jsval list \<Rightarrow> string" where
  "console_line bi call =
     (case call of (lv, args) \<Rightarrow>
        (case lv of Log \<Rightarrow> ''LOG: '' | Error \<Rightarrow> ''ERROR: '' | Warn \<Rightarrow> ''WARN: '')
        @ join '' '' (map (\<lambda>arg. if is_object arg then JSON_stringify bi arg else String_of bi arg) args))"

definition getLogs :: "executor \<Rightarrow> string list" where
  "getLogs ex = sandboxLogs ex"

definition message_TypeError :: "jsval \<Rightarrow> error" where
  "message_TypeError v =
     ''Cannot read properties of '' @ (if v = JNull then ''null'' else ''undefined'')
     @ '' (reading '' @ [CHR 0x27] @ ''message'' @ [CHR 0x27] @ '')''"

text \<open>
  \<open>executeWithVM2\<close>. The \<open>catch\<close> block reads \<open>error.message\<close> of whatever was thrown;
  that read throws itself when the thrown value is \<open>null\<close> or \<open>undefined\<close>.
\<close>

definition executeWithVM2 ::
    "builtins \<Rightarrow> executor \<Rightarrow> exec_context \<Rightarrow> exec_io \<Rightarrow> (error + exec_result) \<times> executor" where
  "executeWithVM2 bi ex ctx io =
     (let ex1 = ex\<lparr> sandboxLogs := sandboxLogs ex @ map (console_line bi) (vm_console io) \<rparr>
      in case vm io of
           VmReturns v \<Rightarrow>
             (Inr \<lparr> success = True, output = v, error = JNull, logs = JArr [],
                    executionTime = clock_end io - clock io, strategy = ''vm2'',
                    containerId = None \<rparr>, ex1)
         | VmThrows thrown \<Rightarrow>
             (case get_prop thrown ''message'' of
                None \<Rightarrow> (Inl (message_TypeError thrown), ex1)
              | Some m \<Rightarrow>
                  (Inr \<lparr> success = False, output = JNull, error = m, logs = JArr [],
                         executionTime = clock_end io - clock io, strategy = ''vm2'',
                         containerId = None \<rparr>, ex1)))"

text \<open>\<open>parseDockerOutput\<close> (and \<open>SandboxService.parseOutput\<close>, which has the same body).\<close>

definition parseOutput :: "builtins \<Rightarrow> jsval \<Rightarrow> jsval" where
  "parseOutput bi out =
     (if \<not> truthy out then JNull
      else (case JSON_parse bi out of Some v \<Rightarrow> v | None \<Rightarrow> out))"

text \<open>
  \<open>executeWithDocker\<close>: create, run, and in the \<open>finally\<close> block destroy the container if
  one was created (\<open>if (containerId)\<close>: the id is a non-empty string). Every exception is
  rethrown as \<open>DOCKER_EXECUTION_FAILED\<close>.
\<close>

definition finally_destroy :: "docker_manager \<Rightarrow> string \<Rightarrow> bool \<Rightarrow> bool \<Rightarrow> docker_manager" where
  "finally_destroy dm cid stop_ok' remove_ok' =
     (if cid \<noteq> [] then destroyContainer dm cid stop_ok' remove_ok' else dm)"

definition executeWithDocker ::
    "builtins \<Rightarrow> executor \<Rightarrow> exec_context \<Rightarrow> exec_io \<Rightarrow> (error + exec_result) \<times> executor" where
  "executeWithDocker bi ex ctx io =
     (case createContainer (dockerManager ex) (clock io) (create_answer io) of
        (Inl e, dm1) \<Rightarrow>
          (Inl (''DOCKER_EXECUTION_FAILED: '' @ e), ex\<lparr> dockerManager := dm1 \<rparr>)
      | (Inr cid, dm1) \<Rightarrow>
          (case executeCode bi dm1 cid (clock io) (clock_end io) (run io) of
             (Inl e, dm2) \<Rightarrow>
               (Inl (''DOCKER_EXECUTION_FAILED: '' @ e),
                ex\<lparr> dockerManager := finally_destroy dm2 cid (stop_ok io) (remove_ok io) \<rparr>)
           | (Inr r, dm2) \<Rightarrow>
               (Inr \<lparr> success = success r, output = parseOutput bi (output r),
                      error = error r, logs = js_or (logs r) (JArr []),
                      executionTime = clock_end io - clock io, strategy = ''docker'',
                      containerId = Some cid \<rparr>,
                ex\<lparr> dockerManager := finally_destroy dm2 cid (stop_ok io) (remove_ok io) \<rparr>)))"

text \<open>
  \<open>autoExecute\<close>. The test of the source is
  \<open>shouldUseDocker && await dockerManager.healthCheck().status === 'HEALTHY'\<close>:
  \<open>.status\<close> is read from the promise that \<open>healthCheck()\<close> returns, before the \<open>await\<close>,
  and a promise has no such property.
\<close>

definition shouldUseDocker :: "exec_context \<Rightarrow> bool" where
  "shouldUseDocker ctx =
     (language ctx \<noteq> JStr ''javascript'' \<or> hasComplexOperations (code ctx)
      \<or> hasAsyncOperations (code ctx) \<or> truthy (requireIsolation ctx))"

definition status_of_promise :: "health \<Rightarrow> jsval" where
  "status_of_promise resolves_to = JUndefined"

definition autoExecute ::
    "builtins \<Rightarrow> executor \<Rightarrow> exec_context \<Rightarrow> exec_io \<Rightarrow> (error + exec_result) \<times> executor" where
  "autoExecute bi ex ctx io =
     (if shouldUseDocker ctx
         \<and> status_of_promise (healthCheck (dockerManager ex) (info_ok io)) = JStr ''HEALTHY''
      then (case executeWithDocker bi ex ctx io of
              (Inr r, ex1) \<Rightarrow> (Inr r, ex1)
            | (Inl dockerError, ex1) \<Rightarrow> executeWithVM2 bi ex1 ctx io)
      else executeWithVM2 bi ex ctx io)"

definition generateCacheKey :: "builtins \<Rightarrow> exec_context \<Rightarrow> string" where
  "generateCacheKey bi ctx =
     base64 bi (code ctx @ JSON_stringify bi (mockData ctx) @ JSON_stringify bi (environment ctx)
                @ JSON_stringify bi (request ctx))"

text \<open>\<open>CodeExecutor.executeCode(strategy, executionContext)\<close>.\<close>

definition dispatch ::
    "builtins \<Rightarrow> executor \<Rightarrow> string \<Rightarrow> exec_context \<Rightarrow> exec_io
      \<Rightarrow> (error + exec_result) \<times> executor" where
  "dispatch bi ex strat ctx io =
     (if strat = ''docker'' then executeWithDocker bi ex ctx io
      else if strat = ''vm2'' then executeWithVM2 bi ex ctx io
      else autoExecute bi ex ctx io)"

definition cache_get :: "executor \<Rightarrow> string \<Rightarrow> int \<Rightarrow> exec_result option" where
  "cache_get ex cacheKey now =
     (case map_of (executionCache ex) cacheKey of
        None \<Rightarrow> None
      | Some cachedResult \<Rightarrow>
          if now - timestamp cachedResult < cacheTTL then Some (cached cachedResult) else None)"

definition CodeExecutor_executeCode ::
    "builtins \<Rightarrow> executor \<Rightarrow> string \<Rightarrow> exec_context \<Rightarrow> exec_io
      \<Rightarrow> (error + exec_result) \<times> executor" where
  "CodeExecutor_executeCode bi ex strat ctx io =
     (let cacheKey = generateCacheKey bi ctx
      in case cache_get ex cacheKey (clock io) of
           Some r \<Rightarrow> (Inr r, ex)
         | None \<Rightarrow>
             (case dispatch bi ex strat ctx io of
                (Inl e, ex1) \<Rightarrow> (Inl e, ex1)
              | (Inr r, ex1) \<Rightarrow>
                  (Inr r,
                   if success r
                   then ex1\<lparr> executionCache :=
                                map_set (executionCache ex1) cacheKey
                                  \<lparr> cached = r, timestamp = clock_end io \<rparr> \<rparr>
                   else ex1)))"

text \<open>Every entry of the cache holds a successful result.\<close>

definition cache_successful :: "executor \<Rightarrow> bool" where
  "cache_successful ex = list_all (\<lambda>(key, entry). success (cached entry)) (executionCache ex)"

definition cleanupCache :: "executor \<Rightarrow> int \<Rightarrow> executor" where
  "cleanupCache ex now =
     ex\<lparr> executionCache :=
           filter (\<lambda>(key, entry). \<not> (now - timestamp entry > cacheTTL)) (executionCache ex) \<rparr>"

section \<open>The stores behind the orchestrator\<close>

text \<open>
  The endpoint table, the mock-data collections and the execution log live in the
  database; they are tables of the state. An endpoint row carries what the query of
  \<open>executeEndpoint\<close> selects and the checks read: the code, the owning project, its owner
  and its collaborators (user id, \<open>canEdit\<close>).
\<close>

record endpoint_row =
  ep_code :: string
  ep_method :: string
  ep_path :: string
  projectId :: string
  ownerId :: string
  collaborators :: "(string \<times> bool) list"
  callCount :: int
  lastCalled :: "int option"

text \<open>
  A collection row: \<open>mc_schema\<close> is \<open>None\<close> for a collection without schema, and otherwise
  gives the errors \<open>validateDataAgainstSchema\<close> reports for an item array. A version of
  \<open>0\<close> stands for metadata without a version.
\<close>

record collection_row =
  mc_name :: string
  mc_ownerId :: string
  mc_collaborators :: "(string \<times> bool) list"
  mc_schema :: "(jsval list \<Rightarrow> string list) option"
  mc_data :: jsval
  mc_version :: int
  mc_saveCount :: int

record log_row =
  log_endpointId :: string
  log_userId :: string
  statusCode :: int
  responseBody :: jsval
  log_error :: jsval
  sandboxId :: "string option"

record pending_save =
  ps_collectionName :: string
  ps_collectionId :: jsval
  ps_data :: jsval
  ps_endpointId :: jsval
  ps_executionId :: jsval

record system =
  executionStats :: "(string \<times> int \<times> int) list"
  saveQueue :: "(string \<times> pending_save list) list"
  docker :: docker_manager
  endpoints :: "(string \<times> endpoint_row) list"
  collections :: "(string \<times> collection_row) list"
  executionLogs :: "log_row list"

definition maxExecutionsPerUser :: int where
  "maxExecutionsPerUser = 1000"

subsection \<open>mockDataService.saveFromExecution\<close>

text \<open>
  The collaborator that persists a directive: it looks the collection up by the id it is
  given, checks that the user may edit it, checks the data, then replaces the items and
  bumps the version. A lookup with an id that is not a string is rejected by the
  database client.
\<close>

definition saveFromExecution ::
    "builtins \<Rightarrow> system \<Rightarrow> jsval \<Rightarrow> jsval \<Rightarrow> jsval \<Rightarrow> (error + jsval) \<times> system" where
  "saveFromExecution bi sys collectionId dat userId =
     (case collectionId of
        JStr cid \<Rightarrow>
          (case map_of (collections sys) cid of
             None \<Rightarrow> (Inl ''COLLECTION_NOT_FOUND'', sys)
           | Some collection \<Rightarrow>
               if \<not> (JStr (mc_ownerId collection) = userId
                       \<or> list_ex (\<lambda>(u, canEdit). JStr u = userId \<and> canEdit)
                            (mc_collaborators collection))
               then (Inl ''COLLECTION_EDIT_ACCESS_DENIED'', sys)
               else
                 (case dat of
                    JArr items \<Rightarrow>
                      (let errors = (case mc_schema collection of
                                       None \<Rightarrow> [] | Some validate \<Rightarrow> validate items)
                       in if errors \<noteq> []
                          then (Inl (''SCHEMA_VALIDATION_FAILED: '' @ join '', '' errors), sys)
                          else
                            (let version = (if mc_version collection = 0 then 1
                                            else mc_version collection) + 1;
                                 saveCount = mc_saveCount collection + 1
                             in (Inr (JObj
                                   [(''success'', JBool True),
                                    (''message'', JStr (''Saved '' @ String_of bi (JNum (int (length items)))
                                                      @ '' items to '' @ mc_name collection)),
                                    (''collection'', JObj
                                       [(''id'', JStr cid),
                                        (''name'', JStr (mc_name collection)),
                                        (''itemCount'', JNum (int (length items))),
                                        (''version'', JNum version)])]),
                                 sys\<lparr> collections :=
                                        map_set (collections sys) cid
                                          (collection\<lparr> mc_data := dat, mc_version := version,
                                                        mc_saveCount := saveCount \<rparr>) \<rparr>)))
                  | _ \<Rightarrow> (Inl ''DATA_MUST_BE_ARRAY'', sys)))
      | _ \<Rightarrow> (Inl ''INVALID_FIND_UNIQUE_ARGUMENT'', sys))"

section \<open>SandboxService\<close>

definition checkRateLimit :: "system \<Rightarrow> string \<Rightarrow> int \<Rightarrow> error + system" where
  "checkRateLimit sys userId now =
     (let userStats = (case map_of (executionStats sys) userId of
                         Some st \<Rightarrow> st | None \<Rightarrow> (0, now + 3600000));
          userStats1 = (if now > snd userStats then (0, now + 3600000) else userStats)
      in if fst userStats1 \<ge> maxExecutionsPerUser then Inl ''RATE_LIMIT_EXCEEDED''
         else Inr (sys\<lparr> executionStats :=
                          map_set (executionStats sys) userId (fst userStats1 + 1, snd userStats1) \<rparr>))"

text \<open>\<open>logExecution\<close> swallows a failure of the write (\<open>log_ok = False\<close>).\<close>

definition logExecution :: "system \<Rightarrow> bool \<Rightarrow> log_row \<Rightarrow> system" where
  "logExecution sys log_ok row =
     (if log_ok then sys\<lparr> executionLogs := executionLogs sys @ [row] \<rparr> else sys)"

record execution_data =
  body :: jsval
  query :: jsval
  params :: jsval
  headers :: jsval
  mockDataCollectionId :: jsval
  environmentId :: jsval

record endpoint_io = docker_io +
  log_ok :: bool

text \<open>
  The directive the orchestrator completes from \<open>output.data._saveOperation\<close> (source lines
  663 to 673): every identifier is the sandbox-reported one when that is truthy, and the
  one of the request otherwise.
\<close>

record save_op =
  op_collectionId :: jsval
  op_endpointId :: jsval
  op_userId :: jsval
  op_projectId :: jsval
  op_data :: jsval
  op_executionId :: jsval

definition completeSaveOp :: "jsval \<Rightarrow> jsval \<Rightarrow> string \<Rightarrow> string \<Rightarrow> string \<Rightarrow> save_op" where
  "completeSaveOp saveOp requestCollectionId endpointId userId projId =
     \<lparr> op_collectionId = js_or (read_prop saveOp ''collectionId'') requestCollectionId,
       op_endpointId = js_or (read_prop saveOp ''endpointId'') (JStr endpointId),
       op_userId = js_or (read_prop saveOp ''userId'') (JStr userId),
       op_projectId = js_or (read_prop saveOp ''projectId'') (JStr projId),
       op_data = read_prop saveOp ''data'',
       op_executionId = read_prop saveOp ''executionId'' \<rparr>"

text \<open>
  The save directive found in the output, if any: \<open>output && output.data &&
  output.data._saveOperation\<close>. A truthy value has properties, so the reads do not throw.
\<close>

definition find_saveOperation :: "jsval \<Rightarrow> jsval option" where
  "find_saveOperation out =
     (if truthy out \<and> truthy (read_prop out ''data'')
         \<and> truthy (read_prop (read_prop out ''data'') ''_saveOperation'')
      then Some (read_prop (read_prop out ''data'') ''_saveOperation'')
      else None)"

text \<open>
  Source lines 651 to 703: the \<open>try\<close> block that applies the directive. Reading
  \<open>completeSaveOp.data.length\<close> for the log line throws when the directive has no data,
  and \<open>saveFromExecution\<close> may throw; the \<open>catch\<close> logs either to the console and goes on.
  The result is the list \<open>saveResults\<close>.
\<close>

definition apply_saveOperation ::
    "builtins \<Rightarrow> system \<Rightarrow> jsval \<Rightarrow> jsval \<Rightarrow> string \<Rightarrow> string \<Rightarrow> string \<Rightarrow> jsval list \<times> system" where
  "apply_saveOperation bi sys out requestCollectionId endpointId userId projId =
     (case find_saveOperation (parseOutput bi out) of
        None \<Rightarrow> ([], sys)
      | Some saveOp \<Rightarrow>
          (let c = completeSaveOp saveOp requestCollectionId endpointId userId projId
           in case get_prop (op_data c) ''length'' of
                None \<Rightarrow> ([], sys)
              | Some n \<Rightarrow>
                  (case saveFromExecution bi sys (op_collectionId c) (op_data c) (op_userId c) of
                     (Inl e, sys1) \<Rightarrow> ([], sys1)
                   | (Inr saveResult, sys1) \<Rightarrow> ([saveResult], sys1))))"

text \<open>
  Source lines 705 to 745: the saves queued under the container id, each in its own
  \<open>try\<close>; a failure is pushed to \<open>saveResults\<close> as \<open>{success: false, error, collectionName}\<close>.
\<close>

fun process_pending ::
    "builtins \<Rightarrow> system \<Rightarrow> string \<Rightarrow> pending_save list \<Rightarrow> jsval list \<times> system" where
  "process_pending bi sys userId [] = ([], sys)"
| "process_pending bi sys userId (saveOp # rest) =
     (let (r, sys1) =
            (case get_prop (ps_data saveOp) ''length'' of
               None \<Rightarrow> (Inl (message_TypeError (ps_data saveOp)), sys)
             | Some n \<Rightarrow>
                 saveFromExecution bi sys (ps_collectionId saveOp) (ps_data saveOp) (JStr userId));
          saveResult =
            (case r of
               Inr v \<Rightarrow> v
             | Inl e \<Rightarrow> JObj [(''success'', JBool False), (''error'', JStr e),
                              (''collectionName'', JStr (ps_collectionName saveOp))]);
          (results, sys2) = process_pending bi sys1 userId rest
      in (saveResult # results, sys2))"

definition process_saveQueue ::
    "builtins \<Rightarrow> system \<Rightarrow> string \<Rightarrow> string \<Rightarrow> jsval list \<times> system" where
  "process_saveQueue bi sys cid userId =
     (case map_of (saveQueue sys) cid of
        None \<Rightarrow> ([], sys)
      | Some pendingSaves \<Rightarrow>
          (let (results, sys1) = process_pending bi sys userId pendingSaves
           in (results, sys1\<lparr> saveQueue := map_delete (saveQueue sys1) cid \<rparr>)))"

record response =
  resp_success :: bool
  resp_data :: jsval
  resp_error :: jsval
  resp_logs :: jsval
  resp_executionTime :: int
  savedData :: jsval

text \<open>
  The \<open>finally\<close> block, entered with a container id: if the id is truthy, drop what is
  queued under it and destroy the container.
\<close>

definition cleanup :: "system \<Rightarrow> string \<Rightarrow> endpoint_io \<Rightarrow> system" where
  "cleanup sys cid io =
     (if cid \<noteq> []
      then sys\<lparr> saveQueue := map_delete (saveQueue sys) cid,
               docker := destroyContainer (docker sys) cid (stop_ok io) (remove_ok io) \<rparr>
      else sys)"

text \<open>
  The part of \<open>executeEndpoint\<close> inside the outer \<open>try\<close>, once a container exists: run, apply
  the directive, drain the queue, log, count the call, build the response.
\<close>

definition run_in_container ::
    "builtins \<Rightarrow> system \<Rightarrow> string \<Rightarrow> string \<Rightarrow> execution_data \<Rightarrow> endpoint_row \<Rightarrow> string
      \<Rightarrow> endpoint_io \<Rightarrow> (error + response) \<times> system" where
  "run_in_container bi sys endpointId userId executionData endpoint cid io =
     (case executeCode bi (docker sys) cid (clock io) (clock_end io) (run io) of
        (Inl e, dm1) \<Rightarrow> (Inl e, sys\<lparr> docker := dm1 \<rparr>)
      | (Inr executionResult, dm1) \<Rightarrow>
          (let sys1 = sys\<lparr> docker := dm1 \<rparr>;
               (saved1, sys2) =
                 apply_saveOperation bi sys1 (output executionResult)
                   (mockDataCollectionId executionData) endpointId userId (projectId endpoint);
               (saved2, sys3) = process_saveQueue bi sys2 cid userId;
               saveResults = saved1 @ saved2;
               sys4 = logExecution sys3 (log_ok io)
                        \<lparr> log_endpointId = endpointId, log_userId = userId,
                          statusCode = (if success executionResult then 200 else 500),
                          responseBody = (if success executionResult
                                          then output executionResult else JNull),
                          log_error = (if success executionResult then JNull
                                       else error executionResult),
                          sandboxId = Some cid \<rparr>;
               sys5 = sys4\<lparr> endpoints :=
                              map_set (endpoints sys4) endpointId
                                (endpoint\<lparr> callCount := callCount endpoint + 1,
                                            lastCalled := Some (clock_end io) \<rparr>) \<rparr>
           in (Inr \<lparr> resp_success = success executionResult,
                     resp_data = (if success executionResult
                                  then parseOutput bi (output executionResult) else JNull),
                     resp_error = error executionResult,
                     resp_logs = js_or (logs executionResult) (JArr []),
                     resp_executionTime = clock_end io - clock io,
                     savedData = (if saveResults \<noteq> []
                                  then JObj [(''count'', JNum (int (length saveResults))),
                                             (''results'', JArr saveResults)]
                                  else JNull) \<rparr>,
               sys5)))"

definition error_log :: "string \<Rightarrow> string \<Rightarrow> int \<Rightarrow> error \<Rightarrow> string option \<Rightarrow> log_row" where
  "error_log endpointId userId st e sandbox =
     \<lparr> log_endpointId = endpointId, log_userId = userId, statusCode = st,
       responseBody = JNull, log_error = JStr e, sandboxId = sandbox \<rparr>"

text \<open>
  \<open>executeEndpoint(endpointId, userId, executionData)\<close>, in the order of the source: health
  probe (its answer is only logged), rate limit, endpoint lookup, access, validation,
  then the \<open>try / catch / finally\<close> around the container. The query selects no
  \<open>visibility\<close> of the project, so \<open>endpoint.project.visibility\<close> is \<open>undefined\<close>.
\<close>

definition executeEndpoint ::
    "builtins \<Rightarrow> system \<Rightarrow> string \<Rightarrow> string \<Rightarrow> execution_data \<Rightarrow> endpoint_io
      \<Rightarrow> (error + response) \<times> system" where
  "executeEndpoint bi sys endpointId userId executionData io =
     (case checkRateLimit sys userId (clock io) of
        Inl e \<Rightarrow> (Inl e, sys)
      | Inr sys1 \<Rightarrow>
          (case map_of (endpoints sys1) endpointId of
             None \<Rightarrow> (Inl ''ENDPOINT_NOT_FOUND'', sys1)
           | Some endpoint \<Rightarrow>
               if \<not> (ownerId endpoint = userId
                       \<or> filter (\<lambda>(u, canEdit). u = userId) (collaborators endpoint) \<noteq> []
                       \<or> JUndefined = JStr ''PUBLIC'')
               then (Inl ''ENDPOINT_ACCESS_DENIED'', sys1)
               else
                 (case validateCode (ep_code endpoint) of
                    Inl validationError \<Rightarrow>
                      (Inl (''SANDBOX_VALIDATION_FAILED: '' @ validationError),
                       logExecution sys1 (log_ok io)
                         (error_log endpointId userId 400
                            (''SANDBOX_VALIDATION_FAILED: '' @ validationError) None))
                  | Inr ok \<Rightarrow>
                      (case createContainer (docker sys1) (clock io) (create_answer io) of
                         (Inl e, dm1) \<Rightarrow>
                           (Inl e, logExecution (sys1\<lparr> docker := dm1 \<rparr>) (log_ok io)
                                     (error_log endpointId userId 500 e None))
                       | (Inr cid, dm1) \<Rightarrow>
                           (case run_in_container bi (sys1\<lparr> docker := dm1 \<rparr>) endpointId userId
                                   executionData endpoint cid io of
                              (Inl e, sys2) \<Rightarrow>
                                (Inl e, cleanup (logExecution sys2 (log_ok io)
                                                  (error_log endpointId userId 500 e (Some cid)))
                                          cid io)
                            | (Inr resp, sys2) \<Rightarrow> (Inr resp, cleanup sys2 cid io))))))"

section \<open>Sample inputs\<close>

text \<open>
  Concrete inputs for the examples below. \<open>sample_builtins\<close> gives the built-ins on the
  arguments the examples pass to them: \<open>JSON.parse\<close> of the sample output lines and of
  an object (whose string form is not JSON), \<open>JSON.stringify\<close> of the empty object,
  \<open>String\<close> of a string and of small numbers, the base64 text of two cache keys.
\<close>

definition sample_manager :: docker_manager where
  "sample_manager =
     \<lparr> activeContainers = [(''c1'', \<lparr> createdAt = 900, lastUsed = 900 \<rparr>)],
       maxContainers = 10, running = [''c1''] \<rparr>"

definition code_ok :: string where
  \<open>code_ok = ''return { message: "ok" };''\<close>

definition code_throw :: string where
  \<open>code_throw = ''throw new Error("boom");''\<close>

definition code_save_B :: string where
  \<open>code_save_B = ''return { data: { _saveOperation: { collectionId: "B", data: [] } } };''\<close>

definition code_save_bad :: string where
  \<open>code_save_bad = ''return { data: { _saveOperation: { data: "oops" } } };''\<close>

definition code_throw_null :: string where
  "code_throw_null = ''throw null;''"

definition code_throw_string :: string where
  \<open>code_throw_string = ''throw "boom";''\<close>

definition code_log :: string where
  \<open>code_log = ''console.log("hi"); return 1;''\<close>

definition code_long :: string where
  "code_long = replicate 60000 (CHR ''a'')"

definition fs_call :: string where
  \<open>fs_call = ''.readdirSync("/");''\<close>

definition code_require_fs :: string where
  "code_require_fs =
     ''return '' @ ''require('' @ [CHR 0x22] @ ''fs'' @ [CHR 0x22] @ '')'' @ fs_call"

definition code_require_spaced :: string where
  \<open>code_require_spaced = ''return require( "fs" ).readdirSync("/");''\<close>

definition code_eval_spaced :: string where
  "code_eval_spaced = ''return eval (request.body.x);''"

definition code_await :: string where
  "code_await = ''return await load();''"

definition code_eval :: string where
  "code_eval = ''return eval(request.body.x);''"

definition code_Function :: string where
  "code_Function = ''return new Function(request.body.x)();''"

definition code_loops :: string where
  "code_loops = ''for(a of b){} for(a of b){} for(a of b){} while(a){} while(b){} while(c){} return 1;''"

definition code_random :: string where
  "code_random = ''return Math.random();''"

text \<open>What the harness in the container prints for each of them, and its parsed form.\<close>

definition line_ok :: string where
  \<open>line_ok = ''{"success":true,"data":{"message":"ok"},"logs":[]}''\<close>

definition line_throw :: string where
  \<open>line_throw = ''{"success":false,"error":"[Execution Error] boom","logs":[]}''\<close>

definition line_save_B :: string where
  \<open>line_save_B =
     ''{"success":true,"data":{"data":{"_saveOperation":{"collectionId":"B","data":[]}}},"logs":[]}''\<close>

definition line_save_bad :: string where
  \<open>line_save_bad =
     ''{"success":true,"data":{"data":{"_saveOperation":{"data":"oops"}}},"logs":[]}''\<close>

text \<open>
  Under \<open>CodeExecutor\<close>'s own docker strategy the code is wrapped twice; for
  \<open>code_throw\<close> the inner wrapper writes the error to stderr and the outer one prints a
  result without data.
\<close>

definition line_outer :: string where
  \<open>line_outer = ''{"success":true,"logs":[]}''\<close>

definition line_error500 :: string where
  \<open>line_error500 = ''{"status":500,"error":"boom"}''\<close>

definition sample_json :: "(string \<times> jsval) list" where
  "sample_json =
    [ (line_ok,
       JObj [(''success'', JBool True), (''data'', JObj [(''message'', JStr ''ok'')]),
             (''logs'', JArr [])]),
      (line_throw,
       JObj [(''success'', JBool False), (''error'', JStr ''[Execution Error] boom''),
             (''logs'', JArr [])]),
      (line_save_B,
       JObj [(''success'', JBool True),
             (''data'', JObj [(''data'', JObj [(''_saveOperation'',
                JObj [(''collectionId'', JStr ''B''), (''data'', JArr [])])])]),
             (''logs'', JArr [])]),
      (line_save_bad,
       JObj [(''success'', JBool True),
             (''data'', JObj [(''data'', JObj [(''_saveOperation'',
                JObj [(''data'', JStr ''oops'')])])]),
             (''logs'', JArr [])]),
      (line_outer, JObj [(''success'', JBool True), (''logs'', JArr [])]),
      (line_error500, JObj [(''status'', JNum 500), (''error'', JStr ''boom'')]) ]"

definition sample_base64 :: "(string \<times> string) list" where
  "sample_base64 =
    [ (code_throw @ ''{}{}{}'', ''dGhyb3cgbmV3IEVycm9yKCJib29tIik7e317fXt9''),
      (code_ok @ ''{}{}{}'', ''cmV0dXJuIHsgbWVzc2FnZTogIm9rIiB9O3t9e317fQ=='') ]"

definition sample_builtins :: builtins where
  "sample_builtins =
     \<lparr> JSON_parse = (\<lambda>v. case v of JStr s \<Rightarrow> map_of sample_json s | _ \<Rightarrow> None),
       JSON_stringify = (\<lambda>v. case v of JObj [] \<Rightarrow> ''{}'' | _ \<Rightarrow> ''null''),
       String_of = (\<lambda>v. case v of JStr s \<Rightarrow> s | JNum n \<Rightarrow> (if n = 1 then ''1'' else ''0'')
                             | _ \<Rightarrow> ''undefined''),
       base64 = (\<lambda>s. case map_of sample_base64 s of Some b \<Rightarrow> b | None \<Rightarrow> []) \<rparr>"

text \<open>
  A system with one endpoint \<open>ep1\<close> of user \<open>u1\<close> running the given code, and two
  collections \<open>A\<close> and \<open>B\<close> that \<open>u1\<close> owns.
\<close>

definition sample_collection :: "string \<Rightarrow> collection_row" where
  "sample_collection name =
     \<lparr> mc_name = name, mc_ownerId = ''u1'', mc_collaborators = [], mc_schema = None,
       mc_data = JArr [JNum 1], mc_version = 1, mc_saveCount = 0 \<rparr>"

definition sample_endpoint :: "string \<Rightarrow> endpoint_row" where
  "sample_endpoint src =
     \<lparr> ep_code = src, ep_method = ''GET'', ep_path = ''/items'', projectId = ''p1'',
       ownerId = ''u1'', collaborators = [], callCount = 7, lastCalled = None \<rparr>"

definition sample_system :: "string \<Rightarrow> system" where
  "sample_system src =
     \<lparr> executionStats = [], saveQueue = [], docker = new_DockerManager None,
       endpoints = [(''ep1'', sample_endpoint src)],
       collections = [(''A'', sample_collection ''orders''), (''B'', sample_collection ''users'')],
       executionLogs = [] \<rparr>"

definition sample_request :: execution_data where
  "sample_request =
     \<lparr> body = JObj [], query = JObj [], params = JObj [], headers = JObj [],
       mockDataCollectionId = JStr ''A'', environmentId = JUndefined \<rparr>"

definition sample_endpoint_io :: "run_outcome \<Rightarrow> endpoint_io" where
  "sample_endpoint_io r =
     \<lparr> clock = 1000, clock_end = 1007, info_ok = True, create_answer = Some ''c1'',
       run = r, stop_ok = True, remove_ok = True, log_ok = True \<rparr>"

definition sample_context :: "string \<Rightarrow> exec_context" where
  "sample_context src =
     \<lparr> code = src, timeout = 5000, language = JStr ''javascript'',
       mockData = JObj [], environment = JObj [], request = JObj [],
       requireIsolation = JUndefined \<rparr>"

definition sample_io :: "run_outcome \<Rightarrow> vm_outcome \<Rightarrow> exec_io" where
  "sample_io r v =
     \<lparr> clock = 1000, clock_end = 1007, info_ok = True, create_answer = Some ''c1'',
       run = r, stop_ok = True, remove_ok = True, vm_console = [], vm = v \<rparr>"

section \<open>Facts about the containers\<close>

lemma map_of_map_set: "map_of (map_set m k v) = (map_of m)(k \<mapsto> v)"
  by (simp add: map_set_def update_conv')

lemma map_of_map_delete: "map_of (map_delete m k) = (map_of m)(k := None)"
  by (simp add: map_delete_def delete_conv')

lemma length_map_set: "length (map_set m k v) \<le> Suc (length m)"
  unfolding map_set_def by (induction m) auto

text \<open>\<open>split\<close> always gives at least one line, so the last line exists.\<close>

lemma split_nl_nonempty: "split_nl s \<noteq> []"
  by (induction s) (simp_all add: Let_def)

section \<open>Facts about the code checks\<close>

text \<open>Case folding touches the ASCII letters and nothing else.\<close>

lemma upper_examples:
  "map upper ''azAZ@[`{09 _'' = ''AZAZ@[`{09 _'' \<and> upper (CHR 0xE9) = CHR 0xE9"
  by simp

lemma rx_match_lits: "rx_match (lits w @ ps) (w @ s) = rx_match ps s"
  by (induction w) (simp_all add: lits_def)

lemma rx_match_close: "rx_match (lits '')'') (CHR '')'' # post) = Some post"
  by (simp add: lits_def)

lemma rx_test_here: "rx_match p s \<noteq> None \<Longrightarrow> rx_test p s"
  by (cases s) simp_all

lemma rx_test_later: "rx_test p s \<Longrightarrow> rx_test p (pre @ s)"
  by (induction pre) simp_all

text \<open>A literal pattern matches wherever its text occurs.\<close>

lemma rx_test_lits: "rx_test (lits w) (pre @ w @ post)"
proof -
  have "rx_match (lits w @ []) (w @ post) = Some post"
    by (simp only: rx_match_lits rx_match.simps)
  then have "rx_test (lits w) (w @ post)"
    by (intro rx_test_here) simp
  then show ?thesis by (rule rx_test_later)
qed

text \<open>The patterns \<open>f(['"`]m['"`])\<close> match a call of \<open>f\<close> on the quoted module name.\<close>

lemma rx_test_quoted:
  assumes "in_cls quote q" and "in_cls quote q'"
  shows "rx_test (lits f @ [(quote, One)] @ lits m @ [(quote, One)] @ lits '')'')
           (pre @ f @ [q] @ m @ [q'] @ '')'' @ post)"
proof -
  have "rx_match (lits f @ [(quote, One)] @ lits m @ [(quote, One)] @ lits '')'' @ [])
           (f @ [q] @ m @ [q'] @ '')'' @ post) = Some post"
    using assms by (simp add: rx_match_lits rx_match_close)
  then have "rx_test (lits f @ [(quote, One)] @ lits m @ [(quote, One)] @ lits '')'')
           (f @ [q] @ m @ [q'] @ '')'' @ post)"
    by (intro rx_test_here) simp
  then show ?thesis by (rule rx_test_later)
qed

lemma dangerous_eval: "hasDangerousOperations (pre @ ''eval('' @ post)"
  using rx_test_lits [of "''eval(''" pre post]
  by (simp add: hasDangerousOperations_def dangerousPatterns_def)

lemma dangerous_Function: "hasDangerousOperations (pre @ ''Function('' @ post)"
  using rx_test_lits [of "''Function(''" pre post]
  by (simp add: hasDangerousOperations_def dangerousPatterns_def)

lemma dangerous_require_fs:
  assumes "in_cls quote q" and "in_cls quote q'"
  shows "hasDangerousOperations (pre @ ''require('' @ [q] @ ''fs'' @ [q'] @ '')'' @ post)"
  using rx_test_quoted [OF assms, of "''require(''" "''fs''" pre post]
  by (simp add: hasDangerousOperations_def dangerousPatterns_def)

lemma dangerous_import_fs:
  assumes "in_cls quote q" and "in_cls quote q'"
  shows "hasDangerousOperations (pre @ ''import('' @ [q] @ ''fs'' @ [q'] @ '')'' @ post)"
  using rx_test_quoted [OF assms, of "''import(''" "''fs''" pre post]
  by (simp add: hasDangerousOperations_def dangerousPatterns_def)

lemma validateCode_cases:
  "validateCode src =
     (if length src > 10000 then Inl ''CODE_TOO_LONG''
      else if hasDangerousOperations src then Inl ''DANGEROUS_OPERATIONS_DETECTED''
      else if hasExcessiveLoops src then Inl ''EXCESSIVE_LOOPS_DETECTED''
      else if trim src = [] then Inl ''EMPTY_CODE'' else Inr True)"
  by (simp add: validateCode_def validations_def)

text \<open>Unfolding the checks on a concrete program text.\<close>

lemmas validate_eval =
  validateCode_def validations_def hasDangerousOperations_def dangerousPatterns_def
  lits_def quote_def is_space_def hasExcessiveLoops_def loopCount_def loopPatterns_def
  rx_count.simps trim_def

lemma validate_code_ok: "validateCode code_ok = Inr True"
  by (simp add: validate_eval code_ok_def)

lemma validate_code_throw: "validateCode code_throw = Inr True"
  by (simp add: validate_eval code_throw_def)

lemma validate_code_save_B: "validateCode code_save_B = Inr True"
  by (simp add: validate_eval code_save_B_def)

lemma validate_code_save_bad: "validateCode code_save_bad = Inr True"
  by (simp add: validate_eval code_save_bad_def)

section \<open>What each stage of the orchestrator leaves alone\<close>

lemma checkRateLimit_frame:
  "checkRateLimit sys userId now = Inr sys1 \<Longrightarrow>
     endpoints sys1 = endpoints sys \<and> docker sys1 = docker sys \<and> collections sys1 = collections sys"
  by (auto simp: checkRateLimit_def Let_def split: if_splits)

lemma logExecution_frame:
  "endpoints (logExecution sys ok row) = endpoints sys
   \<and> docker (logExecution sys ok row) = docker sys
   \<and> collections (logExecution sys ok row) = collections sys"
  by (simp add: logExecution_def)

lemma cleanup_frame:
  "endpoints (cleanup sys cid io) = endpoints sys \<and> collections (cleanup sys cid io) = collections sys"
  by (simp add: cleanup_def)

lemma saveFromExecution_frame:
  "endpoints (snd (saveFromExecution bi sys c d u)) = endpoints sys
   \<and> docker (snd (saveFromExecution bi sys c d u)) = docker sys"
  by (simp add: saveFromExecution_def Let_def split: jsval.splits option.splits)

lemma apply_saveOperation_frame:
  "endpoints (snd (apply_saveOperation bi sys out req e u p)) = endpoints sys
   \<and> docker (snd (apply_saveOperation bi sys out req e u p)) = docker sys"
proof (cases "find_saveOperation (parseOutput bi out)")
  case None
  then show ?thesis by (simp add: apply_saveOperation_def)
next
  case (Some saveOp)
  show ?thesis
  proof (cases "get_prop (op_data (completeSaveOp saveOp req e u p)) ''length''")
    case None
    with Some show ?thesis by (simp add: apply_saveOperation_def Let_def)
  next
    case (Some n)
    obtain r sys1 where s:
      "saveFromExecution bi sys (op_collectionId (completeSaveOp saveOp req e u p))
         (op_data (completeSaveOp saveOp req e u p)) (op_userId (completeSaveOp saveOp req e u p))
       = (r, sys1)"
      by (cases "saveFromExecution bi sys (op_collectionId (completeSaveOp saveOp req e u p))
         (op_data (completeSaveOp saveOp req e u p)) (op_userId (completeSaveOp saveOp req e u p))")
    from saveFromExecution_frame [of bi sys "op_collectionId (completeSaveOp saveOp req e u p)"
        "op_data (completeSaveOp saveOp req e u p)" "op_userId (completeSaveOp saveOp req e u p)"] s
    have "endpoints sys1 = endpoints sys \<and> docker sys1 = docker sys" by simp
    with \<open>find_saveOperation (parseOutput bi out) = Some saveOp\<close> Some s show ?thesis
      by (cases r) (simp_all add: apply_saveOperation_def Let_def)
  qed
qed

lemma process_pending_frame:
  "endpoints (snd (process_pending bi sys u ops)) = endpoints sys
   \<and> docker (snd (process_pending bi sys u ops)) = docker sys"
proof (induction ops arbitrary: sys)
  case Nil
  show ?case by simp
next
  case (Cons saveOp rest)
  define step where "step =
    (case get_prop (ps_data saveOp) ''length'' of
       None \<Rightarrow> (Inl (message_TypeError (ps_data saveOp)), sys)
     | Some n \<Rightarrow> saveFromExecution bi sys (ps_collectionId saveOp) (ps_data saveOp) (JStr u))"
  have f: "endpoints (snd step) = endpoints sys \<and> docker (snd step) = docker sys"
    using saveFromExecution_frame [of bi sys "ps_collectionId saveOp" "ps_data saveOp" "JStr u"]
    by (simp add: step_def split: option.splits)
  have "snd (process_pending bi sys u (saveOp # rest)) = snd (process_pending bi (snd step) u rest)"
    by (simp add: step_def [symmetric] Let_def split_beta)
  with f Cons.IH [of "snd step"] show ?case by simp
qed

lemma process_saveQueue_frame:
  "endpoints (snd (process_saveQueue bi sys cid u)) = endpoints sys
   \<and> docker (snd (process_saveQueue bi sys cid u)) = docker sys"
  using process_pending_frame [of bi sys u]
  by (simp add: process_saveQueue_def Let_def split_beta split: option.splits)

lemma run_in_container_endpoints:
  "endpoints (snd (run_in_container bi sys ep u d endpoint cid io)) =
     (case fst (run_in_container bi sys ep u d endpoint cid io) of
        Inl e \<Rightarrow> endpoints sys
      | Inr resp \<Rightarrow>
          map_set (endpoints sys) ep
            (endpoint\<lparr> callCount := callCount endpoint + 1, lastCalled := Some (clock_end io) \<rparr>))"
proof (cases "executeCode bi (docker sys) cid (clock io) (clock_end io) (run io)")
  case (Pair r dm1)
  show ?thesis
  proof (cases r)
    case (Inl e)
    with Pair show ?thesis by (simp add: run_in_container_def)
  next
    case (Inr executionResult)
    with Pair show ?thesis
      by (simp add: run_in_container_def Let_def split_beta logExecution_frame
            process_saveQueue_frame apply_saveOperation_frame)
  qed
qed

text \<open>Unfolding a request on the sample system.\<close>

lemmas endpoint_eval =
  executeEndpoint_def checkRateLimit_def maxExecutionsPerUser_def sample_system_def
  sample_endpoint_def sample_endpoint_io_def sample_request_def new_DockerManager_def
  createContainer_def createContainer_check_def createContainer_register_def map_set_def
  map_delete_def run_in_container_def executeCode_def read_stdout_def read_stderr_def
  json_line_def starts_json_def trim_def is_space_def sample_builtins_def sample_json_def
  line_ok_def line_throw_def line_save_B_def line_save_bad_def line_outer_def line_error500_def
  apply_saveOperation_def find_saveOperation_def parseOutput_def read_prop_def js_or_def
  completeSaveOp_def saveFromExecution_def sample_collection_def process_saveQueue_def
  logExecution_def cleanup_def destroyContainer_def error_log_def Let_def

section \<open>Facts about the result cache\<close>

text \<open>
  The test that guards the heavy branch of \<open>autoExecute\<close> compares the \<open>status\<close> property of
  a promise with \<open>'HEALTHY'\<close>; it is false whatever the health of the backend, so the
  light strategy always runs.
\<close>

lemma autoExecute_is_light: "autoExecute bi ex ctx io = executeWithVM2 bi ex ctx io"
  by (simp add: autoExecute_def status_of_promise_def)

lemma dispatch_cache:
  "executionCache (snd (dispatch bi ex strat ctx io)) = executionCache ex"
  by (simp add: dispatch_def autoExecute_is_light executeWithVM2_def executeWithDocker_def Let_def
        split: vm_outcome.splits option.splits prod.splits sum.splits)

lemma list_all_map_set:
  "list_all P m \<Longrightarrow> P (k, v) \<Longrightarrow> list_all P (map_set m k v)"
  unfolding map_set_def by (induction m) auto

lemma executeCode_result:
  "cache_get ex (generateCacheKey bi ctx) (clock io) = None \<Longrightarrow>
   CodeExecutor_executeCode bi ex strat ctx io =
     (case dispatch bi ex strat ctx io of
        (Inl e, ex1) \<Rightarrow> (Inl e, ex1)
      | (Inr r, ex1) \<Rightarrow>
          (Inr r, if success r
                  then ex1\<lparr> executionCache := map_set (executionCache ex1) (generateCacheKey bi ctx)
                                \<lparr> cached = r, timestamp = clock_end io \<rparr> \<rparr>
                  else ex1))"
  by (simp add: CodeExecutor_executeCode_def Let_def)

lemma executeCode_hit:
  "cache_get ex (generateCacheKey bi ctx) (clock io) = Some r \<Longrightarrow>
   CodeExecutor_executeCode bi ex strat ctx io = (Inr r, ex)"
  by (simp add: CodeExecutor_executeCode_def Let_def)

lemma executeCode_keeps_successes:
  assumes "cache_successful ex"
  shows "cache_successful (snd (CodeExecutor_executeCode bi ex strat ctx io))"
proof (cases "cache_get ex (generateCacheKey bi ctx) (clock io)")
  case (Some r)
  with assms show ?thesis by (simp add: executeCode_hit)
next
  case None
  obtain d ex1 where d: "dispatch bi ex strat ctx io = (d, ex1)"
    by (cases "dispatch bi ex strat ctx io")
  with dispatch_cache [of bi ex strat ctx io] have c: "executionCache ex1 = executionCache ex"
    by simp
  with assms have s1: "cache_successful ex1"
    by (simp add: cache_successful_def)
  show ?thesis
  proof (cases d)
    case (Inl e)
    with None d s1 show ?thesis by (simp add: executeCode_result)
  next
    case (Inr r)
    with None d s1 show ?thesis
      by (simp add: executeCode_result cache_successful_def list_all_map_set)
  qed
qed

lemma executeCode_then_cached:
  assumes "cache_get ex (generateCacheKey bi ctx) (clock io) = None"
    and "CodeExecutor_executeCode bi ex strat ctx io = (Inr r, ex1)"
    and "success r"
    and "clock io2 - clock_end io < cacheTTL"
  shows "cache_get ex1 (generateCacheKey bi ctx) (clock io2) = Some r"
proof -
  obtain d ex0 where d: "dispatch bi ex strat ctx io = (d, ex0)"
    by (cases "dispatch bi ex strat ctx io")
  from assms(1,2,3) d have
    "ex1 = ex0\<lparr> executionCache := map_set (executionCache ex0) (generateCacheKey bi ctx)
                                \<lparr> cached = r, timestamp = clock_end io \<rparr> \<rparr>"
    by (cases d) (auto simp: executeCode_result)
  with assms(4) show ?thesis
    by (simp add: cache_get_def map_of_map_set)
qed


text \<open>Unfolding a call of the executor on the sample inputs.\<close>

lemmas executor_eval =
  CodeExecutor_executeCode_def cache_get_def generateCacheKey_def dispatch_def
  executeWithDocker_def executeWithVM2_def finally_destroy_def destroyContainer_def
  createContainer_def createContainer_check_def createContainer_register_def
  executeCode_def read_stdout_def read_stderr_def json_line_def starts_json_def trim_def
  is_space_def parseOutput_def read_prop_def js_or_def map_set_def map_delete_def
  new_CodeExecutor_def new_DockerManager_def sample_builtins_def sample_json_def
  sample_base64_def sample_context_def sample_io_def code_ok_def code_throw_def
  line_ok_def line_throw_def line_save_B_def line_save_bad_def line_outer_def
  line_error500_def cacheTTL_def console_line_def is_object_def Let_def

section \<open>C1: the identifiers of a save directive\<close>

text \<open>
  C1, as the specification states it: when the request supplies a collection id and the
  output holds a save directive, the directive that is applied uses the collection id of
  the request; identifiers reported by the sandbox only fill what the request does not
  know.

  The example is a request for collection \<open>A\<close> whose endpoint code returns a directive
  naming collection \<open>B\<close>. The save goes to \<open>B\<close>: its items are replaced and its version is
  bumped, and \<open>A\<close> is left as it was.
\<close>

theorem directive_goes_to_reported_collection_counterexample:
  "mockDataCollectionId sample_request = JStr ''A''
   \<and> (case executeEndpoint sample_builtins (sample_system code_save_B) ''ep1'' ''u1'' sample_request
            (sample_endpoint_io (StreamEnds (line_save_B @ [CHR 0x0A]) [] (Inr 0))) of
        (Inl e, sys') \<Rightarrow> False
      | (Inr resp, sys') \<Rightarrow>
          map_of (collections sys') ''A'' = Some (sample_collection ''orders'')
          \<and> map_option mc_data (map_of (collections sys') ''B'') = Some (JArr [])
          \<and> map_option mc_version (map_of (collections sys') ''B'') = Some 2)"
  by (simp add: endpoint_eval validate_code_save_B)

text \<open>
  C1, amended: when the output holds a save directive, each identifier of the directive
  that is applied (collection, endpoint, user, project) is the one the sandbox reported
  whenever the sandbox reported one (a truthy value); the identifier of the request is
  used only where the sandbox reported none. In particular the collection that
  \<open>saveFromExecution\<close> is called on is the sandbox-reported one when there is one, and the
  one of the request otherwise.
\<close>

theorem directive_ids_filled_when_missing:
  assumes "find_saveOperation (parseOutput bi out) = Some saveOp"
  shows "op_collectionId (completeSaveOp saveOp requestCollectionId endpointId userId projId)
       = (if truthy (read_prop saveOp ''collectionId'') then read_prop saveOp ''collectionId''
          else requestCollectionId)
   \<and> op_endpointId (completeSaveOp saveOp requestCollectionId endpointId userId projId)
       = (if truthy (read_prop saveOp ''endpointId'') then read_prop saveOp ''endpointId''
          else JStr endpointId)
   \<and> op_userId (completeSaveOp saveOp requestCollectionId endpointId userId projId)
       = (if truthy (read_prop saveOp ''userId'') then read_prop saveOp ''userId'' else JStr userId)
   \<and> op_projectId (completeSaveOp saveOp requestCollectionId endpointId userId projId)
       = (if truthy (read_prop saveOp ''projectId'') then read_prop saveOp ''projectId''
          else JStr projId)
   \<and> (get_prop (read_prop saveOp ''data'') ''length'' \<noteq> None \<longrightarrow>
        apply_saveOperation bi sys out requestCollectionId endpointId userId projId
          = (case saveFromExecution bi sys
                    (if truthy (read_prop saveOp ''collectionId'') then read_prop saveOp ''collectionId''
                     else requestCollectionId)
                    (read_prop saveOp ''data'')
                    (if truthy (read_prop saveOp ''userId'') then read_prop saveOp ''userId''
                     else JStr userId) of
               (Inl e, sys1) \<Rightarrow> ([], sys1)
             | (Inr saveResult, sys1) \<Rightarrow> ([saveResult], sys1)))"
  using assms
  by (auto simp: apply_saveOperation_def completeSaveOp_def js_or_def Let_def)

theorem directive_ids_filled_when_missing_witness:
  "op_collectionId
     (completeSaveOp (JObj [(''collectionId'', JStr ''B''), (''data'', JArr [])]) (JStr ''A'')
        ''ep1'' ''u1'' ''p1'') = JStr ''B''
   \<and> op_collectionId
     (completeSaveOp (JObj [(''data'', JArr [])]) (JStr ''A'') ''ep1'' ''u1'' ''p1'') = JStr ''A''
   \<and> op_userId
     (completeSaveOp (JObj [(''data'', JArr [])]) (JStr ''A'') ''ep1'' ''u1'' ''p1'') = JStr ''u1''"
proof -
  let ?reported = "JObj [(''collectionId'', JStr ''B''), (''data'', JArr [])]"
  let ?silent = "JObj [(''data'', JArr [])]"
  have r: "find_saveOperation
             (parseOutput sample_builtins (JObj [(''data'', JObj [(''_saveOperation'', ?reported)])]))
           = Some ?reported"
    by (simp add: find_saveOperation_def parseOutput_def sample_builtins_def read_prop_def)
  have s: "find_saveOperation
             (parseOutput sample_builtins (JObj [(''data'', JObj [(''_saveOperation'', ?silent)])]))
           = Some ?silent"
    by (simp add: find_saveOperation_def parseOutput_def sample_builtins_def read_prop_def)
  from directive_ids_filled_when_missing [OF r, of "JStr ''A''" "''ep1''" "''u1''" "''p1''"]
       directive_ids_filled_when_missing [OF s, of "JStr ''A''" "''ep1''" "''u1''" "''p1''"]
  show ?thesis
    by (simp add: read_prop_def)
qed

section \<open>C2: strategy selection\<close>

text \<open>
  C2, as the specification states it: selection defaults to Light and escalates to Heavy
  exactly when the code uses asynchronous constructs, targets a non-default language or
  the caller asks for isolation; when Heavy is selected and the backend is UNHEALTHY,
  execution falls back to Light and records that a downgrade occurred.

  The first example is JavaScript code that calls \<open>Math.random\<close>, uses no asynchronous
  construct and asks for no isolation: the selection asks for the heavy strategy all the
  same, since the code matches one of the patterns of \<open>hasComplexOperations\<close>. The second
  is code that uses \<open>await\<close>, with an UNHEALTHY backend: the run that follows is, result
  and state, the plain light run, so nothing records a downgrade.
\<close>

theorem strategy_selection_counterexample:
  "shouldUseDocker (sample_context code_random)
   \<and> language (sample_context code_random) = JStr ''javascript''
   \<and> \<not> hasAsyncOperations (code (sample_context code_random))
   \<and> \<not> truthy (requireIsolation (sample_context code_random))
   \<and> hasAsyncOperations (code (sample_context code_await))
   \<and> status (healthCheck (dockerManager (new_CodeExecutor (new_DockerManager None))) False)
       = ''UNHEALTHY''
   \<and> autoExecute sample_builtins (new_CodeExecutor (new_DockerManager None))
         (sample_context code_await)
         ((sample_io (StreamError []) (VmReturns (JNum 0)))\<lparr> info_ok := False \<rparr>)
       = executeWithVM2 sample_builtins (new_CodeExecutor (new_DockerManager None))
         (sample_context code_await)
         ((sample_io (StreamError []) (VmReturns (JNum 0)))\<lparr> info_ok := False \<rparr>)"
  by (simp add: shouldUseDocker_def sample_context_def code_random_def code_await_def
        hasComplexOperations_def complexPatterns_def hasAsyncOperations_def asyncPatterns_def
        lits_def is_space_def healthCheck_def autoExecute_def status_of_promise_def)

text \<open>
  C2, amended: the selection asks for the heavy strategy exactly when the language is
  not \<open>javascript\<close>, the code has complex operations (timers, loops, JSON or random
  calls, promises), the code has asynchronous constructs, or the caller asks for
  isolation. When it does not, or when the backend health check reports UNHEALTHY, the
  light strategy runs and its outcome is returned as it is; no downgrade is recorded.
\<close>

theorem strategy_selection:
  "(shouldUseDocker ctx \<longleftrightarrow>
      language ctx \<noteq> JStr ''javascript'' \<or> hasComplexOperations (code ctx)
      \<or> hasAsyncOperations (code ctx) \<or> truthy (requireIsolation ctx))
   \<and> (\<not> shouldUseDocker ctx \<or> status (healthCheck (dockerManager ex) (info_ok io)) = ''UNHEALTHY''
        \<longrightarrow> autoExecute bi ex ctx io = executeWithVM2 bi ex ctx io)"
  by (auto simp: shouldUseDocker_def autoExecute_def status_of_promise_def)

theorem strategy_selection_witness:
  "shouldUseDocker (sample_context code_random)
   \<and> autoExecute sample_builtins (new_CodeExecutor (new_DockerManager None))
         (sample_context code_random)
         ((sample_io (StreamError []) (VmReturns (JNum 0)))\<lparr> info_ok := False \<rparr>)
       = executeWithVM2 sample_builtins (new_CodeExecutor (new_DockerManager None))
         (sample_context code_random)
         ((sample_io (StreamError []) (VmReturns (JNum 0)))\<lparr> info_ok := False \<rparr>)"
proof -
  have c: "hasComplexOperations (code (sample_context code_random))"
    by (simp add: sample_context_def code_random_def hasComplexOperations_def complexPatterns_def
          lits_def is_space_def)
  have u: "status (healthCheck (dockerManager (new_CodeExecutor (new_DockerManager None)))
             (info_ok ((sample_io (StreamError []) (VmReturns (JNum 0)))\<lparr> info_ok := False \<rparr>)))
           = ''UNHEALTHY''"
    by (simp add: healthCheck_def)
  from c u strategy_selection
    [of "sample_context code_random" "new_CodeExecutor (new_DockerManager None)"
        "(sample_io (StreamError []) (VmReturns (JNum 0)))\<lparr> info_ok := False \<rparr>" sample_builtins]
  show ?thesis by blast
qed

section \<open>C3: the deadline of a run\<close>

text \<open>
  C3, as the specification states it: whenever the deadline of a run expires, the owning
  environment is force-destroyed before the call fails with \<open>EXECUTION_TIMEOUT\<close>; the
  error is never returned while the environment is still live.

  The code kills the container inside a \<open>try\<close> whose \<open>catch\<close> only logs. The example below
  is a run whose deadline fires and whose kill fails: the call fails with
  \<open>EXECUTION_TIMEOUT\<close> while the container is still registered and still running.
\<close>

theorem timeout_leaves_container_counterexample:
  "fst (executeCode sample_builtins sample_manager ''c1'' 1000 6000 (DeadlineFires False))
     = Inl ''EXECUTION_TIMEOUT''
   \<and> map fst (activeContainers
        (snd (executeCode sample_builtins sample_manager ''c1'' 1000 6000 (DeadlineFires False))))
     = [''c1'']
   \<and> running (snd (executeCode sample_builtins sample_manager ''c1'' 1000 6000 (DeadlineFires False)))
     = [''c1'']"
  by (simp add: executeCode_def forceStopContainer_def Let_def sample_manager_def map_set_def
        map_delete_def)

text \<open>
  C3, amended: when the deadline of a run in a registered environment expires, the call
  fails with \<open>EXECUTION_TIMEOUT\<close> after the kill has been attempted. If the kill succeeds,
  the environment is gone from the registry and from the daemon when the error is
  returned; if the kill fails, the error is returned all the same and the environment is
  still registered and running.
\<close>

theorem timeout_kill_then_fail:
  assumes "map_of (activeContainers dm) cid = Some cd"
  shows "fst (executeCode bi dm cid now now_end (DeadlineFires kill_ok)) = Inl ''EXECUTION_TIMEOUT''
    \<and> (kill_ok \<longrightarrow>
          map_of (activeContainers (snd (executeCode bi dm cid now now_end (DeadlineFires kill_ok)))) cid
            = None
          \<and> cid \<notin> set (running (snd (executeCode bi dm cid now now_end (DeadlineFires kill_ok)))))
    \<and> (\<not> kill_ok \<longrightarrow>
          map_of (activeContainers (snd (executeCode bi dm cid now now_end (DeadlineFires kill_ok)))) cid
            = Some (cd\<lparr>lastUsed := now\<rparr>)
          \<and> running (snd (executeCode bi dm cid now now_end (DeadlineFires kill_ok))) = running dm)"
  using assms
  by (simp add: executeCode_def forceStopContainer_def Let_def map_of_map_set map_of_map_delete)

theorem timeout_kill_then_fail_witness:
  "fst (executeCode sample_builtins sample_manager ''c1'' 1000 6000 (DeadlineFires True))
     = Inl ''EXECUTION_TIMEOUT''
   \<and> activeContainers
        (snd (executeCode sample_builtins sample_manager ''c1'' 1000 6000 (DeadlineFires True))) = []
   \<and> running (snd (executeCode sample_builtins sample_manager ''c1'' 1000 6000 (DeadlineFires True)))
     = []"
proof -
  have h: "map_of (activeContainers sample_manager) ''c1'' = Some \<lparr> createdAt = 900, lastUsed = 900 \<rparr>"
    by (simp add: sample_manager_def)
  from timeout_kill_then_fail [OF h, of sample_builtins 1000 6000 True]
  show ?thesis
    by (simp add: executeCode_def forceStopContainer_def Let_def sample_manager_def map_set_def
          map_delete_def)
qed

section \<open>C4: the result cache\<close>

text \<open>
  C4, as the specification states it: the cache never holds an unsuccessful result, and
  for any two calls with identical code and context within the TTL the second returns
  the cached result without allocating a new environment.

  The example is the docker strategy on code that throws, called twice, one second apart,
  with the same context. The first result is unsuccessful, so nothing is cached; the
  second call runs again, in a new container \<open>c2\<close>.
\<close>

theorem second_call_runs_again_counterexample:
  "(case CodeExecutor_executeCode sample_builtins (new_CodeExecutor (new_DockerManager None))
           ''docker'' (sample_context code_throw)
           (sample_io (StreamEnds (line_outer @ [CHR 0x0A]) line_error500 (Inr 0)) (VmReturns JNull)) of
      (Inl e, ex1) \<Rightarrow> False
    | (Inr r1, ex1) \<Rightarrow>
        (case CodeExecutor_executeCode sample_builtins ex1 ''docker'' (sample_context code_throw)
                ((sample_io (StreamEnds (line_outer @ [CHR 0x0A]) line_error500 (Inr 0))
                    (VmReturns JNull))
                 \<lparr> clock := 2000, clock_end := 2009, create_answer := Some ''c2'' \<rparr>) of
           (Inl e, ex2) \<Rightarrow> False
         | (Inr r2, ex2) \<Rightarrow>
             \<not> success r1 \<and> executionCache ex1 = [] \<and> 2000 - 1007 < cacheTTL
             \<and> containerId r1 = Some ''c1'' \<and> containerId r2 = Some ''c2''))"
  by (simp add: executor_eval)

text \<open>
  C4, amended: the cache never holds an unsuccessful result (it starts empty, and every
  call of the executor and every cleanup keeps all entries successful); a call that finds
  an entry younger than the TTL under its key returns that result and changes nothing;
  and for any two calls with the same cache key of which the first ran and returned a
  successful result, the second call, made within the TTL of the first one's completion,
  returns that result unmodified and leaves the executor and its environments untouched.
\<close>

theorem cache_holds_successes:
  "cache_successful (new_CodeExecutor dm)
   \<and> (cache_successful ex \<longrightarrow>
        cache_successful (snd (CodeExecutor_executeCode bi ex strat ctx io))
        \<and> cache_successful (cleanupCache ex now))
   \<and> (cache_get ex (generateCacheKey bi ctx) (clock io) = Some r0 \<longrightarrow>
        CodeExecutor_executeCode bi ex strat ctx io = (Inr r0, ex))
   \<and> (cache_get ex (generateCacheKey bi ctx) (clock io) = None
        \<and> CodeExecutor_executeCode bi ex strat ctx io = (Inr r, ex1) \<and> success r
        \<and> generateCacheKey bi ctx2 = generateCacheKey bi ctx
        \<and> clock io2 - clock_end io < cacheTTL \<longrightarrow>
        CodeExecutor_executeCode bi ex1 strat2 ctx2 io2 = (Inr r, ex1))"
proof (intro conjI impI)
  show "cache_successful (new_CodeExecutor dm)"
    by (simp add: cache_successful_def new_CodeExecutor_def)
next
  assume "cache_successful ex"
  then show "cache_successful (snd (CodeExecutor_executeCode bi ex strat ctx io))"
    by (rule executeCode_keeps_successes)
next
  assume "cache_successful ex"
  then show "cache_successful (cleanupCache ex now)"
    by (simp add: cache_successful_def cleanupCache_def list_all_iff)
next
  assume "cache_get ex (generateCacheKey bi ctx) (clock io) = Some r0"
  then show "CodeExecutor_executeCode bi ex strat ctx io = (Inr r0, ex)"
    by (rule executeCode_hit)
next
  assume a: "cache_get ex (generateCacheKey bi ctx) (clock io) = None
        \<and> CodeExecutor_executeCode bi ex strat ctx io = (Inr r, ex1) \<and> success r
        \<and> generateCacheKey bi ctx2 = generateCacheKey bi ctx
        \<and> clock io2 - clock_end io < cacheTTL"
  then have "cache_get ex1 (generateCacheKey bi ctx) (clock io2) = Some r"
    using executeCode_then_cached [of ex bi ctx io strat r ex1 io2] by blast
  with a have "cache_get ex1 (generateCacheKey bi ctx2) (clock io2) = Some r"
    by simp
  then show "CodeExecutor_executeCode bi ex1 strat2 ctx2 io2 = (Inr r, ex1)"
    by (rule executeCode_hit)
qed

theorem cache_holds_successes_witness:
  "(case CodeExecutor_executeCode sample_builtins (new_CodeExecutor (new_DockerManager None))
           ''vm2'' (sample_context code_ok)
           (sample_io (StreamError []) (VmReturns (JObj [(''message'', JStr ''ok'')]))) of
      (Inl e, ex1) \<Rightarrow> False
    | (Inr r, ex1) \<Rightarrow>
        success r \<and> cache_successful ex1
        \<and> CodeExecutor_executeCode sample_builtins ex1 ''docker'' (sample_context code_ok)
             ((sample_io (StreamError []) (VmThrows JNull))\<lparr> clock := 2000, clock_end := 2009 \<rparr>)
           = (Inr r, ex1))"
proof -
  let ?ex = "new_CodeExecutor (new_DockerManager None)"
  let ?io = "sample_io (StreamError []) (VmReturns (JObj [(''message'', JStr ''ok'')]))"
  let ?io2 = "(sample_io (StreamError []) (VmThrows JNull))\<lparr> clock := 2000, clock_end := 2009 \<rparr>"
  obtain r ex1 where first:
    "CodeExecutor_executeCode sample_builtins ?ex ''vm2'' (sample_context code_ok) ?io = (Inr r, ex1)
     \<and> success r"
    by (simp add: executor_eval)
  have miss: "cache_get ?ex (generateCacheKey sample_builtins (sample_context code_ok)) (clock ?io) = None"
    by (simp add: cache_get_def new_CodeExecutor_def)
  have near: "clock ?io2 - clock_end ?io < cacheTTL"
    by (simp add: sample_io_def cacheTTL_def)
  note t = cache_holds_successes
    [where dm = "new_DockerManager None" and ex = ?ex and bi = sample_builtins and strat = "''vm2''"
       and ctx = "sample_context code_ok" and io = ?io and r = r and ?ex1.0 = ex1
       and ?ctx2.0 = "sample_context code_ok" and ?io2.0 = ?io2 and ?strat2.0 = "''docker''"]
  from t first have s1: "cache_successful ex1"
    by (metis snd_conv)
  from t first miss near
  have "CodeExecutor_executeCode sample_builtins ex1 ''docker'' (sample_context code_ok) ?io2
          = (Inr r, ex1)"
    by blast
  with first s1 show ?thesis by simp
qed

section \<open>C5: the ceiling on live environments\<close>

text \<open>
  A single call, with nothing scheduled between its check and its registration, respects
  the ceiling: it fails at or above it, and a success leaves at most \<open>maxContainers\<close>
  registered.
\<close>

lemma createContainer_alone_respects_limit:
  "(int (length (activeContainers dm)) \<ge> maxContainers dm \<longrightarrow>
      createContainer dm now answer = (Inl ''CONTAINER_LIMIT_EXCEEDED'', dm))
   \<and> (createContainer dm now answer = (Inr cid, dm') \<longrightarrow>
        int (length (activeContainers dm')) \<le> maxContainers dm')"
  using length_map_set [of "activeContainers dm" cid "\<lparr>createdAt = now, lastUsed = now\<rparr>"]
  by (auto simp: createContainer_def createContainer_check_def createContainer_register_def
           split: option.splits if_splits)

text \<open>
  C5: creation fails whenever the live count is at or above the ceiling, no successful
  creation raises the count above it, and the (ceiling+1)-th concurrent attempt fails.

  The check and the registration of \<open>createContainer\<close> are separated by two \<open>await\<close>s.
  With a ceiling of 1 and two callers that both enter before either is resumed, both
  pass the check, both succeed, and two containers are registered.
\<close>

theorem concurrent_create_exceeds_limit:
  "finished (create_schedule (new_DockerManager (Some 1)) 0
       [Enter 1, Enter 2, Resume 1 (Some ''a''), Resume 2 (Some ''b'')])
     = [(1, Inr ''a''), (2, Inr ''b'')]
   \<and> map fst (activeContainers (manager (create_schedule (new_DockerManager (Some 1)) 0
       [Enter 1, Enter 2, Resume 1 (Some ''a''), Resume 2 (Some ''b'')]))) = [''a'', ''b'']
   \<and> maxContainers (manager (create_schedule (new_DockerManager (Some 1)) 0
       [Enter 1, Enter 2, Resume 1 (Some ''a''), Resume 2 (Some ''b'')])) = 1"
  by (simp add: create_schedule_def new_DockerManager_def createContainer_check_def
        createContainer_register_def map_set_def)

section \<open>C6: validation\<close>

text \<open>
  C6, as the specification states it: validation rejects, with an error naming the
  offending construct, every code that exceeds the maximum length, calls a filesystem
  API, uses \<open>eval\<close> or dynamic function construction, or has more than the fixed number
  of loop constructs; and it runs before any environment is allocated.

  The checks are patterns over the text of the code. The two examples call the
  filesystem module and \<open>eval\<close> with a space where the patterns allow none, and pass
  validation.
\<close>

theorem validation_passes_counterexample:
  "validateCode code_require_spaced = Inr True \<and> validateCode code_eval_spaced = Inr True"
  by (simp add: validate_eval code_require_spaced_def code_eval_spaced_def)

text \<open>
  C6, amended: validation rejects every code that is longer than the maximum (10,000
  characters, so also one of 60,000) with \<open>CODE_TOO_LONG\<close>; every code that contains a
  text of the deny-list, among them \<open>require\<close> or \<open>import\<close> of \<open>fs\<close> with the quoted name
  directly between the parentheses, \<open>eval(\<close> and \<open>Function(\<close>, with
  \<open>DANGEROUS_OPERATIONS_DETECTED\<close>; and every code with more than five matches of the loop
  patterns with \<open>EXCESSIVE_LOOPS_DETECTED\<close>. The checks run in this order, and the error is
  the one of the first check that fires. Validation runs before any environment is
  allocated: a request whose endpoint code is rejected fails, and leaves the registry of
  environments and the daemon as they were.
\<close>

theorem validation_rejects_before_allocation:
  "(10000 < length long \<longrightarrow> validateCode long = Inl ''CODE_TOO_LONG'')
   \<and> (in_cls quote q \<and> in_cls quote q' \<and> f \<in> {''require('', ''import(''} \<longrightarrow>
        (\<exists>e. validateCode (pre1 @ f @ [q] @ ''fs'' @ [q'] @ '')'' @ post1) = Inl e
           \<and> (length (pre1 @ f @ [q] @ ''fs'' @ [q'] @ '')'' @ post1) \<le> 10000 \<longrightarrow>
                e = ''DANGEROUS_OPERATIONS_DETECTED'')))
   \<and> (\<exists>e. validateCode (pre2 @ ''eval('' @ post2) = Inl e
           \<and> (length (pre2 @ ''eval('' @ post2) \<le> 10000 \<longrightarrow> e = ''DANGEROUS_OPERATIONS_DETECTED''))
   \<and> (\<exists>e. validateCode (pre3 @ ''Function('' @ post3) = Inl e
           \<and> (length (pre3 @ ''Function('' @ post3) \<le> 10000 \<longrightarrow> e = ''DANGEROUS_OPERATIONS_DETECTED''))
   \<and> (5 < loopCount loops \<longrightarrow>
        (\<exists>e. validateCode loops = Inl e
           \<and> (length loops \<le> 10000 \<and> \<not> hasDangerousOperations loops \<longrightarrow>
                e = ''EXCESSIVE_LOOPS_DETECTED'')))
   \<and> (map_of (endpoints sys) endpointId = Some endpoint \<and> validateCode (ep_code endpoint) = Inl e \<longrightarrow>
        fst (executeEndpoint bi sys endpointId userId executionData io)
          \<in> {Inl ''RATE_LIMIT_EXCEEDED'', Inl ''ENDPOINT_ACCESS_DENIED'',
              Inl (''SANDBOX_VALIDATION_FAILED: '' @ e)}
        \<and> docker (snd (executeEndpoint bi sys endpointId userId executionData io)) = docker sys)"
proof (intro conjI impI)
  assume "10000 < length long"
  then show "validateCode long = Inl ''CODE_TOO_LONG''"
    by (simp add: validateCode_cases)
next
  assume a: "in_cls quote q \<and> in_cls quote q' \<and> f \<in> {''require('', ''import(''}"
  then have "hasDangerousOperations (pre1 @ f @ [q] @ ''fs'' @ [q'] @ '')'' @ post1)"
    using dangerous_require_fs [of q q' pre1 post1] dangerous_import_fs [of q q' pre1 post1]
    by auto
  then show "\<exists>e. validateCode (pre1 @ f @ [q] @ ''fs'' @ [q'] @ '')'' @ post1) = Inl e
           \<and> (length (pre1 @ f @ [q] @ ''fs'' @ [q'] @ '')'' @ post1) \<le> 10000 \<longrightarrow>
                e = ''DANGEROUS_OPERATIONS_DETECTED'')"
    by (simp only: validateCode_cases) (simp add: not_less [symmetric])
next
  show "\<exists>e. validateCode (pre2 @ ''eval('' @ post2) = Inl e
           \<and> (length (pre2 @ ''eval('' @ post2) \<le> 10000 \<longrightarrow> e = ''DANGEROUS_OPERATIONS_DETECTED'')"
    using dangerous_eval [of pre2 post2]
    by (simp only: validateCode_cases) (simp add: not_less [symmetric])
next
  show "\<exists>e. validateCode (pre3 @ ''Function('' @ post3) = Inl e
           \<and> (length (pre3 @ ''Function('' @ post3) \<le> 10000 \<longrightarrow> e = ''DANGEROUS_OPERATIONS_DETECTED'')"
    using dangerous_Function [of pre3 post3]
    by (simp only: validateCode_cases) (simp add: not_less [symmetric])
next
  assume "5 < loopCount loops"
  then show "\<exists>e. validateCode loops = Inl e
           \<and> (length loops \<le> 10000 \<and> \<not> hasDangerousOperations loops \<longrightarrow>
                e = ''EXCESSIVE_LOOPS_DETECTED'')"
    by (simp add: validateCode_cases hasExcessiveLoops_def)
next
  assume a: "map_of (endpoints sys) endpointId = Some endpoint \<and> validateCode (ep_code endpoint) = Inl e"
  show "fst (executeEndpoint bi sys endpointId userId executionData io)
          \<in> {Inl ''RATE_LIMIT_EXCEEDED'', Inl ''ENDPOINT_ACCESS_DENIED'',
              Inl (''SANDBOX_VALIDATION_FAILED: '' @ e)}"
    using a checkRateLimit_frame [of sys userId "clock io"]
    by (auto simp: executeEndpoint_def checkRateLimit_def Let_def split: sum.splits if_splits)
next
  assume a: "map_of (endpoints sys) endpointId = Some endpoint \<and> validateCode (ep_code endpoint) = Inl e"
  show "docker (snd (executeEndpoint bi sys endpointId userId executionData io)) = docker sys"
  proof (cases "checkRateLimit sys userId (clock io)")
    case (Inl x)
    then show ?thesis by (simp add: executeEndpoint_def)
  next
    case (Inr sys1)
    with a checkRateLimit_frame [OF Inr] show ?thesis
      by (simp add: executeEndpoint_def logExecution_frame)
  qed
qed

theorem validation_rejects_before_allocation_witness:
  "validateCode code_long = Inl ''CODE_TOO_LONG''
   \<and> validateCode code_require_fs = Inl ''DANGEROUS_OPERATIONS_DETECTED''
   \<and> validateCode code_eval = Inl ''DANGEROUS_OPERATIONS_DETECTED''
   \<and> validateCode code_Function = Inl ''DANGEROUS_OPERATIONS_DETECTED''
   \<and> validateCode code_loops = Inl ''EXCESSIVE_LOOPS_DETECTED''
   \<and> fst (executeEndpoint sample_builtins (sample_system code_long) ''ep1'' ''u1'' sample_request
            (sample_endpoint_io (StreamError [])))
       = Inl ''SANDBOX_VALIDATION_FAILED: CODE_TOO_LONG''
   \<and> docker (snd (executeEndpoint sample_builtins (sample_system code_long) ''ep1'' ''u1''
                    sample_request (sample_endpoint_io (StreamError []))))
       = new_DockerManager None"
proof -
  have long: "10000 < length code_long"
    by (simp add: code_long_def)
  have q: "in_cls quote (CHR 0x22)"
    by (simp add: quote_def)
  have loops: "5 < loopCount code_loops"
    by (simp add: loopCount_def loopPatterns_def lits_def code_loops_def rx_count.simps is_space_def)
  have harmless: "\<not> hasDangerousOperations code_loops"
    by (simp add: hasDangerousOperations_def dangerousPatterns_def lits_def quote_def code_loops_def
          is_space_def)
  note t = validation_rejects_before_allocation
    [where long = code_long and q = "CHR 0x22" and q' = "CHR 0x22" and f = "''require(''"
       and ?pre1.0 = "''return ''" and ?post1.0 = fs_call
       and ?pre2.0 = "''return ''" and ?post2.0 = "''request.body.x);''"
       and ?pre3.0 = "''return new ''" and ?post3.0 = "''request.body.x)();''"
       and loops = code_loops and sys = "sample_system code_long" and endpointId = "''ep1''"
       and endpoint = "sample_endpoint code_long" and e = "''CODE_TOO_LONG''"
       and bi = sample_builtins and userId = "''u1''" and executionData = sample_request
       and io = "sample_endpoint_io (StreamError [])"]
  have c1: "validateCode code_long = Inl ''CODE_TOO_LONG''"
    using t long by blast
  have c2: "validateCode code_require_fs = Inl ''DANGEROUS_OPERATIONS_DETECTED''"
    using t q by (auto simp: code_require_fs_def fs_call_def)
  have c3: "validateCode code_eval = Inl ''DANGEROUS_OPERATIONS_DETECTED''"
    using t by (auto simp: code_eval_def)
  have c4: "validateCode code_Function = Inl ''DANGEROUS_OPERATIONS_DETECTED''"
    using t by (auto simp: code_Function_def)
  have c5: "validateCode code_loops = Inl ''EXCESSIVE_LOOPS_DETECTED''"
    using t loops harmless by (auto simp: code_loops_def)
  have ep: "map_of (endpoints (sample_system code_long)) ''ep1'' = Some (sample_endpoint code_long)
            \<and> validateCode (ep_code (sample_endpoint code_long)) = Inl ''CODE_TOO_LONG''"
    using c1 by (simp add: sample_system_def sample_endpoint_def)
  have c6: "docker (snd (executeEndpoint sample_builtins (sample_system code_long) ''ep1'' ''u1''
                    sample_request (sample_endpoint_io (StreamError [])))) = new_DockerManager None"
    using t ep by (simp add: sample_system_def)
  have c7: "fst (executeEndpoint sample_builtins (sample_system code_long) ''ep1'' ''u1'' sample_request
            (sample_endpoint_io (StreamError []))) = Inl ''SANDBOX_VALIDATION_FAILED: CODE_TOO_LONG''"
    using c1 by (simp add: executeEndpoint_def checkRateLimit_def maxExecutionsPerUser_def
        sample_system_def sample_endpoint_def sample_endpoint_io_def map_set_def Let_def)
  from c1 c2 c3 c4 c5 c6 c7 show ?thesis by blast
qed

section \<open>C7: errors thrown by the user code\<close>

text \<open>
  Under the light strategy, a thrown error object (anything but \<open>undefined\<close> and \<open>null\<close>) is
  returned as an unsuccessful result whose error is the object's \<open>message\<close>.
\<close>

lemma vm2_captures_error_object:
  assumes "vm io = VmThrows thrown" and "get_prop thrown ''message'' = Some m"
  shows "\<exists>r. fst (executeWithVM2 bi ex ctx io) = Inr r \<and> \<not> success r \<and> error r = m"
  using assms by (simp add: executeWithVM2_def Let_def)

text \<open>
  C7: a runtime error thrown by the user code is returned as a result with
  \<open>success = false\<close> and the error string set, never thrown to the caller.

  The \<open>catch\<close> block of \<open>executeWithVM2\<close> reads \<open>error.message\<close>. For user code that runs
  \<open>throw null\<close> the read throws a TypeError out of the \<open>catch\<close> block, and the call fails
  with it; for \<open>throw "boom"\<close> the result is returned with no error set.
\<close>

theorem vm2_throw_escapes:
  "fst (executeWithVM2 sample_builtins (new_CodeExecutor (new_DockerManager None))
          (sample_context code_throw_null) (sample_io (StreamError []) (VmThrows JNull)))
     = Inl (message_TypeError JNull)
   \<and> map_sum id error
        (fst (executeWithVM2 sample_builtins (new_CodeExecutor (new_DockerManager None))
          (sample_context code_throw_string) (sample_io (StreamError []) (VmThrows (JStr ''boom'')))))
     = Inr JUndefined"
  by (simp add: executeWithVM2_def sample_io_def Let_def)

section \<open>C8: the call counter\<close>

text \<open>
  C8, as the specification states it: the call counter and the last-called timestamp of
  the endpoint are updated only after a successful execution; a request whose execution
  result is unsuccessful leaves them unchanged.

  The example is an endpoint whose code throws. The run ends with exit code 1 and the
  error on stderr, the response has \<open>success = false\<close>, and the counter went from 7 to 8
  and the timestamp was set.
\<close>

theorem failed_run_counted_counterexample:
  "(case executeEndpoint sample_builtins (sample_system code_throw) ''ep1'' ''u1'' sample_request
          (sample_endpoint_io (StreamEnds [] (line_throw @ [CHR 0x0A]) (Inr 1))) of
      (Inl e, sys') \<Rightarrow> False
    | (Inr resp, sys') \<Rightarrow>
        \<not> resp_success resp
        \<and> map_of (endpoints (sample_system code_throw)) ''ep1'' = Some (sample_endpoint code_throw)
        \<and> map_of (endpoints sys') ''ep1''
            = Some ((sample_endpoint code_throw)\<lparr> callCount := 8, lastCalled := Some 1007 \<rparr>))"
  by (simp add: endpoint_eval validate_code_throw)

text \<open>
  C8, amended: the call counter and the last-called timestamp of the endpoint are updated
  after every execution that returns a result, successful or not; for every request that
  fails with an exception (rate limit, unknown endpoint, access, validation, container
  creation, timeout or any other failure of the run) they are unchanged.
\<close>

theorem call_counted_for_every_result:
  "(case executeEndpoint bi sys endpointId userId executionData io of
      (Inr resp, sys') \<Rightarrow>
        map_of (endpoints sys) endpointId \<noteq> None
        \<and> map_of (endpoints sys') endpointId =
            map_option (\<lambda>endpoint. endpoint\<lparr> callCount := callCount endpoint + 1,
                                             lastCalled := Some (clock_end io) \<rparr>)
              (map_of (endpoints sys) endpointId)
    | (Inl e, sys') \<Rightarrow> endpoints sys' = endpoints sys)"
proof (cases "checkRateLimit sys userId (clock io)")
  case (Inl e)
  then show ?thesis by (simp add: executeEndpoint_def)
next
  case (Inr sys1)
  note f = checkRateLimit_frame [OF Inr]
  show ?thesis
  proof (cases "map_of (endpoints sys) endpointId")
    case None
    with Inr f show ?thesis by (simp add: executeEndpoint_def)
  next
    case (Some endpoint)
    show ?thesis
    proof (cases "createContainer (docker sys1) (clock io) (create_answer io)")
      case (Pair c dm1)
      show ?thesis
      proof (cases c)
        case (Inl e)
        with Pair Inr f Some show ?thesis
          by (simp add: executeEndpoint_def logExecution_frame split: sum.splits)
      next
        case (Inr cid)
        obtain r sys2 where run:
          "run_in_container bi (sys1\<lparr> docker := dm1 \<rparr>) endpointId userId executionData endpoint cid io
             = (r, sys2)"
          by (cases "run_in_container bi (sys1\<lparr> docker := dm1 \<rparr>) endpointId userId executionData
                endpoint cid io")
        from run_in_container_endpoints
          [of bi "sys1\<lparr> docker := dm1 \<rparr>" endpointId userId executionData endpoint cid io] run f
        have e2: "endpoints sys2 =
          (case r of
             Inl e \<Rightarrow> endpoints sys
           | Inr resp \<Rightarrow>
               map_set (endpoints sys) endpointId
                 (endpoint\<lparr> callCount := callCount endpoint + 1, lastCalled := Some (clock_end io) \<rparr>))"
          by (cases r) simp_all
        from Pair Inr \<open>checkRateLimit sys userId (clock io) = Inr sys1\<close> f Some run e2 show ?thesis
          by (cases r)
             (simp_all add: executeEndpoint_def logExecution_frame cleanup_frame map_of_map_set
                split: sum.splits)
      qed
    qed
  qed
qed


theorem call_counted_for_every_result_witness:
  "(case executeEndpoint sample_builtins (sample_system code_ok) ''ep1'' ''u1'' sample_request
          (sample_endpoint_io (StreamEnds (line_ok @ [CHR 0x0A]) [] (Inr 0))) of
      (Inl e, sys') \<Rightarrow> False
    | (Inr resp, sys') \<Rightarrow>
        resp_success resp \<and> map_option callCount (map_of (endpoints sys') ''ep1'') = Some 8)
   \<and> (case executeEndpoint sample_builtins (sample_system code_ok) ''ep1'' ''u1'' sample_request
          (sample_endpoint_io (DeadlineFires True)) of
      (Inl e, sys') \<Rightarrow>
        e = ''EXECUTION_TIMEOUT'' \<and> map_option callCount (map_of (endpoints sys') ''ep1'') = Some 7
    | (Inr resp, sys') \<Rightarrow> False)"
proof -
  let ?run = "sample_endpoint_io (StreamEnds (line_ok @ [CHR 0x0A]) [] (Inr 0))"
  let ?late = "sample_endpoint_io (DeadlineFires True)"
  obtain resp sys1 where ok:
    "executeEndpoint sample_builtins (sample_system code_ok) ''ep1'' ''u1'' sample_request ?run
       = (Inr resp, sys1) \<and> resp_success resp"
    by (simp add: endpoint_eval validate_code_ok)
  obtain sys2 where late:
    "executeEndpoint sample_builtins (sample_system code_ok) ''ep1'' ''u1'' sample_request ?late
       = (Inl ''EXECUTION_TIMEOUT'', sys2)"
    by (simp add: endpoint_eval validate_code_ok forceStopContainer_def)
  from call_counted_for_every_result
    [where bi = sample_builtins and sys = "sample_system code_ok" and endpointId = "''ep1''"
       and userId = "''u1''" and executionData = sample_request and io = ?run] ok
  have c1: "map_option callCount (map_of (endpoints sys1) ''ep1'') = Some 8"
    by (simp add: sample_system_def sample_endpoint_def)
  from call_counted_for_every_result
    [where bi = sample_builtins and sys = "sample_system code_ok" and endpointId = "''ep1''"
       and userId = "''u1''" and executionData = sample_request and io = ?late] late
  have c2: "map_option callCount (map_of (endpoints sys2) ''ep1'') = Some 7"
    by (simp add: sample_system_def sample_endpoint_def)
  from ok late c1 c2 show ?thesis by simp
qed

section \<open>C9: a save directive that cannot be persisted\<close>

text \<open>
  Whatever happens to the save directive, a run that returned a result gives a response
  with the success flag and the error of that result: a failing save neither turns the
  response into a failure nor throws.
\<close>

lemma response_keeps_result:
  assumes "executeCode bi (docker sys) cid (clock io) (clock_end io) (run io)
             = (Inr executionResult, dm1)"
  shows "\<exists>resp. fst (run_in_container bi sys endpointId userId executionData endpoint cid io) = Inr resp
           \<and> resp_success resp = success executionResult
           \<and> resp_error resp = error executionResult"
  using assms by (simp add: run_in_container_def Let_def split_beta)

text \<open>
  C9: when the execution succeeds and the save directive it requests cannot be persisted,
  the failure is reported in the \<open>savedData\<close> part of the response while the successful
  result is returned unchanged.

  The example is an endpoint whose code returns a directive with data that is not an
  array, for the collection \<open>A\<close> of the request. \<open>saveFromExecution\<close> throws
  \<open>DATA_MUST_BE_ARRAY\<close>; the \<open>catch\<close> around the directive only writes to the console, and the
  response is successful with \<open>savedData = null\<close>: nothing tells the caller that the save
  failed. (The loop over the queued saves, a few lines below, does push
  \<open>{success: false, error}\<close> for a save that throws.)
\<close>

theorem failed_save_not_reported:
  "fst (saveFromExecution sample_builtins (sample_system code_save_bad) (JStr ''A'') (JStr ''oops'')
          (JStr ''u1'')) = Inl ''DATA_MUST_BE_ARRAY''
   \<and> (case executeEndpoint sample_builtins (sample_system code_save_bad) ''ep1'' ''u1'' sample_request
            (sample_endpoint_io (StreamEnds (line_save_bad @ [CHR 0x0A]) [] (Inr 0))) of
        (Inl e, sys') \<Rightarrow> False
      | (Inr resp, sys') \<Rightarrow>
          resp_success resp \<and> savedData resp = JNull
          \<and> collections sys' = collections (sample_system code_save_bad))"
  by (simp add: endpoint_eval validate_code_save_bad)

text \<open>The same run, read off the response alone: it is returned, and its \<open>savedData\<close> is \<open>null\<close>.\<close>

theorem failed_save_not_reported_witness:
  "map_sum id savedData
     (fst (executeEndpoint sample_builtins (sample_system code_save_bad) ''ep1'' ''u1'' sample_request
            (sample_endpoint_io (StreamEnds (line_save_bad @ [CHR 0x0A]) [] (Inr 0)))))
   = Inr JNull"
  using failed_save_not_reported by (auto split: prod.splits sum.splits)

section \<open>C10: the logs of a light run\<close>

text \<open>
  C10: under the light strategy every returned result has an empty \<open>logs\<close> list; what the
  user code writes to the sandbox console is collected in the sandbox's own buffer and
  never reaches the result. (The call returns no result only when the thrown value is
  \<open>undefined\<close> or \<open>null\<close>, see C7.)
\<close>

theorem vm2_logs_empty:
  "executeWithVM2 bi ex ctx io = (Inr r, ex') \<Longrightarrow>
     logs r = JArr [] \<and> getLogs ex' = getLogs ex @ map (console_line bi) (vm_console io)"
  by (auto simp: executeWithVM2_def getLogs_def Let_def split: vm_outcome.splits option.splits)

theorem vm2_logs_empty_witness:
  "(case executeWithVM2 sample_builtins (new_CodeExecutor (new_DockerManager None))
           (sample_context code_log)
           ((sample_io (StreamError []) (VmReturns (JNum 1)))\<lparr> vm_console := [(Log, [JStr ''hi''])] \<rparr>) of
      (Inr r, ex') \<Rightarrow> logs r = JArr [] \<and> getLogs ex' = [''LOG: hi'']
    | (Inl e, ex') \<Rightarrow> False)"
proof -
  obtain r ex' where e:
    "executeWithVM2 sample_builtins (new_CodeExecutor (new_DockerManager None))
       (sample_context code_log)
       ((sample_io (StreamError []) (VmReturns (JNum 1)))\<lparr> vm_console := [(Log, [JStr ''hi''])] \<rparr>) = (Inr r, ex')"
    by (simp add: executeWithVM2_def sample_io_def Let_def)
  from vm2_logs_empty [OF e] show ?thesis
    unfolding e
    by (simp add: sample_io_def console_line_def sample_builtins_def getLogs_def
          new_CodeExecutor_def is_object_def)
qed

end
